theory Spec2Isabelle
  imports Complex_Main
begin

section \<open>The STOMP planner of stomp\_moveit: data model\<close>

text \<open>
  A shallow embedding of \<^verbatim>\<open>src/stomp_moveit/src/stomp_planner.cpp\<close>.
  A C++ \<^verbatim>\<open>double\<close> is modelled by the real number it denotes, so the values of
  the model are the finite doubles; a NaN or an infinity in a message is outside the
  model. The planner copies and stores joint values unchanged. Its only arithmetic on
  them is the distance of \<^verbatim>\<open>within_tolerance\<close>, and that is done with the
  subtraction and the sum of the environment (\<open>double_sub\<close>, \<open>double_sum\<close>
  below), which round as the machine does. An \<^verbatim>\<open>Eigen::VectorXd\<close> is a list of
  reals, an \<^verbatim>\<open>Eigen::MatrixXd\<close> is its row count together with the list of its
  columns.
\<close>

type_synonym VectorXd = "real list"

record MatrixXd =
  mat_rows :: nat
  mat_columns :: "VectorXd list"

definition cols :: "MatrixXd \<Rightarrow> nat" where
  "cols m = length (mat_columns m)"

text \<open>The ROS messages, with the fields the planner reads or writes.\<close>

type_synonym Point = "real \<times> real \<times> real"
type_synonym Quaternion = "real \<times> real \<times> real \<times> real"

record JointConstraint =
  joint_name :: string
  position :: real

record PositionConstraint =
  target_point_offset :: Point

record OrientationConstraint =
  orientation :: Quaternion

record Constraints =
  joint_constraints :: "JointConstraint list"
  position_constraints :: "PositionConstraint list"
  orientation_constraints :: "OrientationConstraint list"

record JointTrajectoryPoint =
  positions :: "real list"
  velocities :: "real list"
  accelerations :: "real list"
  time_from_start :: real

record JointTrajectory =
  joint_names :: "string list"
  points :: "JointTrajectoryPoint list"

text \<open>\<^verbatim>\<open>moveit_msgs::RobotState\<close>: the joint state it carries.\<close>

record RobotStateMsg =
  joint_state_name :: "string list"
  joint_state_position :: "real list"

record MotionPlanRequest =
  start_state :: RobotStateMsg
  goal_constraints :: "Constraints list"
  trajectory_constraints :: "Constraints list"
  allowed_planning_time :: real
  max_velocity_scaling_factor :: real

text \<open>\<^verbatim>\<open>moveit::core::RobotState\<close>: the position of every variable of the robot.\<close>

type_synonym RobotState = "string \<Rightarrow> real"

record StompConfiguration =
  num_timesteps :: nat
  num_dimensions :: nat

datatype MoveItErrorCodes = SUCCESS | FAILURE | PLANNING_FAILED | INVALID_MOTION_PLAN

text \<open>
  \<^verbatim>\<open>planning_interface::MotionPlanDetailedResponse\<close>; the fields are the members
  \<^verbatim>\<open>description_\<close>, \<^verbatim>\<open>trajectory_\<close> and \<^verbatim>\<open>error_code_\<close>. A null
  \<^verbatim>\<open>RobotTrajectoryPtr\<close> is \<open>None\<close>; a robot trajectory is represented by the
  joint trajectory message it was set from. The processing time is wall-clock time and
  is left out.
\<close>

record MotionPlanDetailedResponse =
  res_description :: "string list"
  res_trajectory :: "JointTrajectory option list"
  res_error_code :: MoveItErrorCodes

subsection \<open>Outcomes of a call\<close>

text \<open>
  The functions of the planner return \<^verbatim>\<open>bool\<close> and write their results to
  reference parameters. A call that returns \<^verbatim>\<open>true\<close> is \<open>Returned\<close> with the
  values written; a call that returns \<^verbatim>\<open>false\<close> is \<open>Failed\<close>, with one
  \<open>failure\<close> for each \<^verbatim>\<open>return false\<close> of the source (the source only logs a
  message there; the constructor names the place). A call that does not return normally
  is \<open>Undefined\<close>: an access outside a \<^verbatim>\<open>std::vector\<close>, the end of a
  non-void function reached without \<^verbatim>\<open>return\<close>, a failed assertion, an Eigen
  operation on vectors of different sizes, an exception that leaves the function.
\<close>

datatype fault =
    OutOfRangeAccess
  | NoReturnValue
  | AssertionAbort
  | EigenSizeMismatch
  | RuntimeError
  | MoveItException

datatype failure =
    NoSeedTrajectory
  | SeedDimensionMismatch
  | SeedJointNameMismatch
  | InsufficientSeedLength
  | StartStateUnavailable
  | SeedStartMismatch
  | SeedGoalMismatch
  | NoSatisfiableGoal
  | SmoothingFailed
  | KDLChainUnavailable
  | IKFailed
  | StartIKFailed
  | GoalIKFailed
  | StartOutOfBounds
  | NoGoalConstraint
  | NoGoalFound
  | MoveItExceptionCaught
  | TimeParameterizationFailed

datatype 'a outcome = Returned 'a | Failed failure | Undefined fault

subsection \<open>The collaborators of the planner\<close>

text \<open>
  Everything the planner calls outside its source file is a field of \<open>planner_env\<close>: the robot
  model and its planning group, MoveIt's state conversion and bounds checks, the TRAC-IK
  solver, the polynomial smoothing, the optimization task, the STOMP optimizer, the time
  parameterization and the planning scene. \<open>default_hint\<close> is the default argument of
  the parameter \<^verbatim>\<open>hint\<close> of \<^verbatim>\<open>ikFromCartesianConstraints\<close>, which the header
  declares. \<open>getKDLChain\<close> is the number of joints of the chain that TRAC-IK finds
  between \<^verbatim>\<open>base_link\<close> and \<^verbatim>\<open>gripper_grasping_frame\<close>, if it finds one, and
  \<open>CartToJnt\<close> is the solver on that chain, from a start configuration and a pose.
  \<open>stomp_config\<close> is the member \<^verbatim>\<open>stomp_config_\<close>. \<open>NDEBUG\<close> tells whether
  assertions (\<^verbatim>\<open>assert\<close>, \<^verbatim>\<open>ROS_ASSERT\<close>) are compiled out.

  The arithmetic of doubles belongs to the environment too. \<open>double_sub a b\<close> is the
  double that \<^verbatim>\<open>a - b\<close> evaluates to, the difference rounded, and \<open>None\<close> when
  it is an infinity. \<open>double_sum\<close> is \<^verbatim>\<open>.sum()\<close> of Eigen on a vector of
  doubles that are not negative: the additions are rounded one by one, in the order
  that Eigen chooses for the platform, and the result is \<open>None\<close> when it is
  infinite.
\<close>

record planner_env =
  ActiveJointModelNames :: "string list"
  JointRoots :: nat
  hasVariable :: "string \<Rightarrow> bool"
  default_state :: RobotState
  robotStateMsgToRobotState :: "RobotStateMsg \<Rightarrow> RobotState \<Rightarrow> RobotState option"
  enforceBounds :: "RobotState \<Rightarrow> RobotState"
  satisfiesBounds_group :: "RobotState \<Rightarrow> bool"
  satisfiesBounds :: "RobotState \<Rightarrow> bool"
  getKDLChain :: "nat option"
  CartToJnt :: "VectorXd \<Rightarrow> Point \<times> Quaternion \<Rightarrow> VectorXd option"
  default_hint :: VectorXd
  applyPolynomialSmoothing :: "MatrixXd \<Rightarrow> MatrixXd option"
  setMotionPlanRequest :: "MotionPlanRequest \<Rightarrow> StompConfiguration \<Rightarrow> bool"
  stomp_solve_seed :: "StompConfiguration \<Rightarrow> MatrixXd \<Rightarrow> MatrixXd option"
  stomp_solve :: "StompConfiguration \<Rightarrow> VectorXd \<Rightarrow> VectorXd \<Rightarrow> MatrixXd option"
  computeTimeStamps :: "RobotStateMsg \<Rightarrow> JointTrajectory \<Rightarrow> real \<Rightarrow> JointTrajectory option"
  has_planning_scene :: bool
  isPathValid :: "JointTrajectory \<Rightarrow> bool"
  stomp_config :: StompConfiguration
  NDEBUG :: bool
  double_sub :: "real \<Rightarrow> real \<Rightarrow> real option"
  double_sum :: "real list \<Rightarrow> real option"

section \<open>Seed trajectories and their encoding\<close>

text \<open>
  \<^verbatim>\<open>jointTrajectorytoParameters\<close> (lines 469-486): a matrix with one row for each
  joint name and one column for each point; \<^verbatim>\<open>positions[joint]\<close> is read for every
  joint below \<^verbatim>\<open>dof\<close>, which is outside the vector when a point has fewer positions.
\<close>

definition jointTrajectorytoParameters :: "JointTrajectory \<Rightarrow> MatrixXd outcome" where
  "jointTrajectorytoParameters traj =
     (let dof = length (joint_names traj) in
      if list_all (\<lambda>pt. dof \<le> length (positions pt)) (points traj)
      then Returned \<lparr>mat_rows = dof,
                     mat_columns = map (\<lambda>pt. take dof (positions pt)) (points traj)\<rparr>
      else Undefined OutOfRangeAccess)"

text \<open>
  \<^verbatim>\<open>extractSeedJointTrajectory\<close> (lines 488-523). The inner loop compares the name
  of constraint \<open>j\<close> with \<^verbatim>\<open>names[j]\<close> and collects the positions.
\<close>

fun seed_joint_point :: "string list \<Rightarrow> JointConstraint list \<Rightarrow> real list \<Rightarrow> real list outcome" where
  "seed_joint_point names [] acc = Returned acc"
| "seed_joint_point [] (c # cs) acc = Undefined OutOfRangeAccess"
| "seed_joint_point (nm # names) (c # cs) acc =
     (if joint_name c \<noteq> nm then Failed SeedJointNameMismatch
      else seed_joint_point names cs (acc @ [position c]))"

fun seed_joint_points ::
  "string list \<Rightarrow> Constraints list \<Rightarrow> JointTrajectoryPoint list \<Rightarrow> JointTrajectoryPoint list outcome" where
  "seed_joint_points names [] pts = Returned pts"
| "seed_joint_points names (c # cs) pts =
     (if length (joint_constraints c) \<noteq> length names then Failed SeedDimensionMismatch
      else case seed_joint_point names (joint_constraints c) [] of
             Returned ps \<Rightarrow>
               seed_joint_points names cs
                 (pts @ [\<lparr>positions = ps, velocities = [], accelerations = [],
                          time_from_start = 0\<rparr>])
           | Failed f \<Rightarrow> Failed f
           | Undefined u \<Rightarrow> Undefined u)"

definition extractSeedJointTrajectory ::
  "planner_env \<Rightarrow> MotionPlanRequest \<Rightarrow> JointTrajectory \<Rightarrow> JointTrajectory outcome" where
  "extractSeedJointTrajectory env req seed =
     (let names = ActiveJointModelNames env in
      case seed_joint_points names (trajectory_constraints req) (points seed) of
        Returned pts \<Rightarrow> Returned (seed\<lparr>points := pts, joint_names := names\<rparr>)
      | Failed f \<Rightarrow> Failed f
      | Undefined u \<Rightarrow> Undefined u)"

text \<open>
  \<^verbatim>\<open>encodeSeedTrajectory\<close> (lines 586-612): one constraint set for each point, one
  joint constraint for each joint name; it throws \<^verbatim>\<open>std::runtime_error\<close> at the
  first point whose number of positions is not the number of joint names.
\<close>

definition encode_point :: "string list \<Rightarrow> JointTrajectoryPoint \<Rightarrow> Constraints" where
  "encode_point names pt =
     \<lparr>joint_constraints =
        map (\<lambda>(nm, p). \<lparr>joint_name = nm, position = p\<rparr>) (zip names (positions pt)),
      position_constraints = [], orientation_constraints = []\<rparr>"

fun encode_points :: "string list \<Rightarrow> JointTrajectoryPoint list \<Rightarrow> Constraints list outcome" where
  "encode_points names [] = Returned []"
| "encode_points names (pt # pts) =
     (if length (positions pt) \<noteq> length names then Undefined RuntimeError
      else case encode_points names pts of
             Returned cs \<Rightarrow> Returned (encode_point names pt # cs)
           | Failed f \<Rightarrow> Failed f
           | Undefined u \<Rightarrow> Undefined u)"

definition encodeSeedTrajectory :: "JointTrajectory \<Rightarrow> Constraints list outcome" where
  "encodeSeedTrajectory seed = encode_points (joint_names seed) (points seed)"

section \<open>Inverse kinematics from Cartesian constraints\<close>

text \<open>
  \<^verbatim>\<open>ikFromCartesianConstraints\<close> (lines 614-677). The start configuration handed to
  \<^verbatim>\<open>CartToJnt\<close> is \<^verbatim>\<open>KDL::JntArray nominal(chain.getNrOfJoints())\<close>, which KDL
  fills with zeros, replaced by the hint when the hint is not empty. The joint limits of
  the chain are never read (the call of \<^verbatim>\<open>getKDLLimits\<close> is commented out). The
  parameter \<^verbatim>\<open>result\<close> is assigned only when the solver succeeds, so the caller's
  vector is unchanged by a failed call.
\<close>

definition ik_nominal :: "nat \<Rightarrow> VectorXd \<Rightarrow> VectorXd" where
  "ik_nominal n hint = (if length hint > 0 then hint else replicate n 0)"

definition ikFromCartesianConstraints ::
  "planner_env \<Rightarrow> PositionConstraint \<Rightarrow> OrientationConstraint \<Rightarrow> VectorXd \<Rightarrow> VectorXd outcome" where
  "ikFromCartesianConstraints env pos_constraint orient_constraint hint =
     (if \<not> NDEBUG env \<and> JointRoots env \<noteq> 1 then Undefined AssertionAbort
      else case getKDLChain env of
             None \<Rightarrow> Failed KDLChainUnavailable
           | Some n \<Rightarrow>
               (case CartToJnt env (ik_nominal n hint)
                       (target_point_offset pos_constraint, orientation orient_constraint) of
                  Some ik_result \<Rightarrow> Returned ik_result
                | None \<Rightarrow> Failed IKFailed))"

text \<open>
  \<^verbatim>\<open>isCartesianSeed\<close> (lines 679-695) reads \<^verbatim>\<open>constraints[0]\<close> without a check
  that there is one, and has no \<^verbatim>\<open>return\<close> after its second \<^verbatim>\<open>if\<close>.
\<close>

definition isCartesianSeed :: "MotionPlanRequest \<Rightarrow> bool outcome" where
  "isCartesianSeed req =
     (case trajectory_constraints req of
        [] \<Rightarrow> Undefined OutOfRangeAccess
      | c # _ \<Rightarrow>
          if length (joint_constraints c) > 0 then Returned False
          else if length (position_constraints c) > 0 \<and> length (orientation_constraints c) > 0
          then Returned True
          else Undefined NoReturnValue)"

text \<open>
  \<^verbatim>\<open>extractSeedCartesianTrajectory\<close> (lines 525-566). The loop runs over the
  position constraints and reads the orientation constraint of the same index;
  \<^verbatim>\<open>joint_pos\<close> is both the result and the hint of every call. The loop of the
  model returns the last \<^verbatim>\<open>joint_pos\<close>, the failure count and the points. The
  failure count is only written to the log; the model returns it beside the seed.
\<close>

definition joint_pt_of :: "VectorXd \<Rightarrow> JointTrajectoryPoint" where
  "joint_pt_of joint_pos =
     \<lparr>positions = joint_pos, velocities = [], accelerations = [], time_from_start = 0\<rparr>"

fun cartesian_seed_loop ::
  "planner_env \<Rightarrow> PositionConstraint list \<Rightarrow> OrientationConstraint list \<Rightarrow> VectorXd \<Rightarrow> int \<Rightarrow>
   JointTrajectoryPoint list \<Rightarrow> (VectorXd \<times> int \<times> JointTrajectoryPoint list) outcome" where
  "cartesian_seed_loop env [] os joint_pos fail_count pts = Returned (joint_pos, fail_count, pts)"
| "cartesian_seed_loop env (p # ps) [] joint_pos fail_count pts = Undefined OutOfRangeAccess"
| "cartesian_seed_loop env (p # ps) (oc # os) joint_pos fail_count pts =
     (case ikFromCartesianConstraints env p oc joint_pos of
        Returned r \<Rightarrow> cartesian_seed_loop env ps os r fail_count (pts @ [joint_pt_of r])
      | Failed f \<Rightarrow>
          cartesian_seed_loop env ps os joint_pos (fail_count + 1) (pts @ [joint_pt_of joint_pos])
      | Undefined u \<Rightarrow> Undefined u)"

definition extractSeedCartesianTrajectory ::
  "planner_env \<Rightarrow> MotionPlanRequest \<Rightarrow> JointTrajectory \<Rightarrow> (JointTrajectory \<times> int) outcome" where
  "extractSeedCartesianTrajectory env req seed =
     (case trajectory_constraints req of
        [] \<Rightarrow> if NDEBUG env then Undefined OutOfRangeAccess else Undefined AssertionAbort
      | c # rest \<Rightarrow>
          if NDEBUG env \<or>
             (rest = [] \<and>
              length (position_constraints c) = length (orientation_constraints c) \<and>
              length (position_constraints c) > 0)
          then (case cartesian_seed_loop env (position_constraints c)
                       (orientation_constraints c) [] 0 (points seed) of
                  Returned (joint_pos, fail_count, pts) \<Rightarrow>
                    Returned (seed\<lparr>points := pts, joint_names := ActiveJointModelNames env\<rparr>,
                              fail_count)
                | Failed f \<Rightarrow> Failed f
                | Undefined u \<Rightarrow> Undefined u)
          else Undefined AssertionAbort)"

text \<open>\<^verbatim>\<open>extractSeedTrajectory\<close> (lines 568-584).\<close>

definition extractSeedTrajectory ::
  "planner_env \<Rightarrow> MotionPlanRequest \<Rightarrow> JointTrajectory \<Rightarrow> JointTrajectory outcome" where
  "extractSeedTrajectory env req seed =
     (if trajectory_constraints req = [] then Failed NoSeedTrajectory
      else case isCartesianSeed req of
             Returned True \<Rightarrow>
               (case extractSeedCartesianTrajectory env req seed of
                  Returned (s, fail_count) \<Rightarrow> Returned s
                | Failed f \<Rightarrow> Failed f
                | Undefined u \<Rightarrow> Undefined u)
           | Returned False \<Rightarrow> extractSeedJointTrajectory env req seed
           | Failed f \<Rightarrow> Failed f
           | Undefined u \<Rightarrow> Undefined u)"

section \<open>Start and goal from the request\<close>

text \<open>
  \<^verbatim>\<open>state.setVariablePosition(jc.joint_name, jc.position)\<close> for every joint
  constraint of a goal, in order; MoveIt throws when the robot model has no variable of
  that name (\<open>None\<close>).
\<close>

fun set_goal_positions :: "planner_env \<Rightarrow> JointConstraint list \<Rightarrow> RobotState \<Rightarrow> RobotState option" where
  "set_goal_positions env [] st = Some st"
| "set_goal_positions env (jc # jcs) st =
     (if hasVariable env (joint_name jc)
      then set_goal_positions env jcs (st(joint_name jc := position jc))
      else None)"

text \<open>
  The loop over the goal constraints, written twice in the source: lines 365-401 of
  \<^verbatim>\<open>getSeedParameters\<close>, where the bounds of the group are checked, and lines 802-842
  of \<^verbatim>\<open>getStartAndGoal\<close>, where the bounds of the whole state are. A goal with joint
  constraints that is out of bounds is skipped, and the positions it wrote stay in the
  state; a goal without joint constraints is tried as a Cartesian goal. The result is the
  goal found, if any.
\<close>

fun goal_loop ::
  "planner_env \<Rightarrow> (RobotState \<Rightarrow> bool) \<Rightarrow> Constraints list \<Rightarrow> RobotState \<Rightarrow> VectorXd option outcome" where
  "goal_loop env bounds_ok [] st = Returned None"
| "goal_loop env bounds_ok (gc # gcs) st =
     (if joint_constraints gc \<noteq> [] then
        (case set_goal_positions env (joint_constraints gc) st of
           None \<Rightarrow> Undefined MoveItException
         | Some st' \<Rightarrow>
             if \<not> bounds_ok st' then goal_loop env bounds_ok gcs st'
             else Returned (Some (map st' (ActiveJointModelNames env))))
      else if position_constraints gc \<noteq> [] \<and> orientation_constraints gc \<noteq> [] then
        (case ikFromCartesianConstraints env (hd (position_constraints gc))
                (hd (orientation_constraints gc)) (default_hint env) of
           Returned goal \<Rightarrow> Returned (Some goal)
         | Failed f \<Rightarrow> goal_loop env bounds_ok gcs st
         | Undefined u \<Rightarrow> Undefined u)
      else goal_loop env bounds_ok gcs st)"

section \<open>Seed repair\<close>

text \<open>
  The lambda \<^verbatim>\<open>within_tolerance\<close> of \<^verbatim>\<open>getSeedParameters\<close> (lines 300-304):
  \<^verbatim>\<open>(a - b).cwiseAbs().sum()\<close> is compared with the tolerance. Every coefficient
  is a rounded difference, its absolute value is exact, and the sum is the rounded sum
  of Eigen. The distance is \<open>None\<close> when it is infinite, which is above every
  tolerance. Eigen does not define the difference of vectors of different sizes.
\<close>

definition MAX_START_DISTANCE_THRESH :: real where
  "MAX_START_DISTANCE_THRESH = 1 / 2"

fun abs_differences :: "planner_env \<Rightarrow> VectorXd \<Rightarrow> VectorXd \<Rightarrow> real list option" where
  "abs_differences env (a # xs) (b # ys) =
     (case double_sub env a b of
        None \<Rightarrow> None
      | Some d \<Rightarrow>
          (case abs_differences env xs ys of
             None \<Rightarrow> None
           | Some ds \<Rightarrow> Some (\<bar>d\<bar> # ds)))"
| "abs_differences env xs ys = Some []"

definition l1_distance :: "planner_env \<Rightarrow> VectorXd \<Rightarrow> VectorXd \<Rightarrow> real option" where
  "l1_distance env a b =
     (case abs_differences env a b of
        None \<Rightarrow> None
      | Some ds \<Rightarrow> double_sum env ds)"

definition within_tolerance :: "planner_env \<Rightarrow> VectorXd \<Rightarrow> VectorXd \<Rightarrow> real \<Rightarrow> bool outcome" where
  "within_tolerance env a b tol =
     (if length a \<noteq> length b then Undefined EigenSizeMismatch
      else Returned (case l1_distance env a b of
                       Some d \<Rightarrow> d \<le> tol
                     | None \<Rightarrow> False))"

text \<open>
  Lines 329-360 of \<^verbatim>\<open>getSeedParameters\<close>: the start state of the request is
  converted, the values of the active joints are copied, and the first column of the
  seed is compared with them and overwritten. The matrix has at least three columns
  here. The result is the matrix and the robot state, with its bounds enforced.
\<close>

definition seed_start_snap ::
  "planner_env \<Rightarrow> MotionPlanRequest \<Rightarrow> MatrixXd \<Rightarrow> (MatrixXd \<times> RobotState) outcome" where
  "seed_start_snap env req parameters =
     (case robotStateMsgToRobotState env (start_state req) (default_state env) of
        None \<Rightarrow> Failed StartStateUnavailable
      | Some st \<Rightarrow>
          (let start = map st (ActiveJointModelNames env) in
           case within_tolerance env (hd (mat_columns parameters)) start MAX_START_DISTANCE_THRESH of
             Returned True \<Rightarrow>
               Returned (parameters\<lparr>mat_columns := (mat_columns parameters)[0 := start]\<rparr>,
                         enforceBounds env st)
           | Returned False \<Rightarrow> Failed SeedStartMismatch
           | Failed f \<Rightarrow> Failed f
           | Undefined u \<Rightarrow> Undefined u))"

text \<open>
  Lines 362-420: the goal is looked for in the goal constraints, and the last column of
  the seed is compared with it and overwritten.
\<close>

definition seed_goal_snap ::
  "planner_env \<Rightarrow> MotionPlanRequest \<Rightarrow> MatrixXd \<Rightarrow> RobotState \<Rightarrow> MatrixXd outcome" where
  "seed_goal_snap env req parameters st =
     (case goal_loop env (satisfiesBounds_group env) (goal_constraints req) st of
        Returned (Some goal) \<Rightarrow>
          (case within_tolerance env (last (mat_columns parameters)) goal
                  MAX_START_DISTANCE_THRESH of
             Returned True \<Rightarrow>
               Returned (parameters\<lparr>mat_columns :=
                           (mat_columns parameters)[cols parameters - 1 := goal]\<rparr>)
           | Returned False \<Rightarrow> Failed SeedGoalMismatch
           | Failed f \<Rightarrow> Failed f
           | Undefined u \<Rightarrow> Undefined u)
      | Returned None \<Rightarrow> Failed NoSatisfiableGoal
      | Failed f \<Rightarrow> Failed f
      | Undefined u \<Rightarrow> Undefined u)"

text \<open>
  Lines 319-427: what \<^verbatim>\<open>getSeedParameters\<close> does with the matrix of the seed
  (the length check, the two snaps, the smoothing).
\<close>

definition repair_seed :: "planner_env \<Rightarrow> MotionPlanRequest \<Rightarrow> MatrixXd \<Rightarrow> MatrixXd outcome" where
  "repair_seed env req parameters =
     (if cols parameters \<le> 2 then Failed InsufficientSeedLength
      else case seed_start_snap env req parameters of
             Returned (parameters1, st) \<Rightarrow>
               (case seed_goal_snap env req parameters1 st of
                  Returned parameters2 \<Rightarrow>
                    (case applyPolynomialSmoothing env parameters2 of
                       Some parameters3 \<Rightarrow> Returned parameters3
                     | None \<Rightarrow> Failed SmoothingFailed)
                | Failed f \<Rightarrow> Failed f
                | Undefined u \<Rightarrow> Undefined u)
           | Failed f \<Rightarrow> Failed f
           | Undefined u \<Rightarrow> Undefined u)"

text \<open>\<^verbatim>\<open>getSeedParameters\<close> (lines 295-428).\<close>

definition empty_trajectory :: JointTrajectory where
  "empty_trajectory = \<lparr>joint_names = [], points = []\<rparr>"

definition getSeedParameters :: "planner_env \<Rightarrow> MotionPlanRequest \<Rightarrow> MatrixXd outcome" where
  "getSeedParameters env req =
     (case extractSeedTrajectory env req empty_trajectory of
        Returned traj \<Rightarrow>
          (case jointTrajectorytoParameters traj of
             Returned parameters \<Rightarrow> repair_seed env req parameters
           | Failed f \<Rightarrow> Failed f
           | Undefined u \<Rightarrow> Undefined u)
      | Failed f \<Rightarrow> Failed f
      | Undefined u \<Rightarrow> Undefined u)"

section \<open>Resolving start and goal\<close>

text \<open>
  \<^verbatim>\<open>robotStateFromEigen\<close> and \<^verbatim>\<open>jointConstraintsFromEigen\<close> (lines 697-713):
  both are \<^verbatim>\<open>assert(false); // FINISH THIS\<close> followed by the return of a
  default-constructed message. Neither reads its argument.
\<close>

definition robotStateFromEigen :: "planner_env \<Rightarrow> VectorXd \<Rightarrow> RobotStateMsg outcome" where
  "robotStateFromEigen env state =
     (if NDEBUG env then Returned \<lparr>joint_state_name = [], joint_state_position = []\<rparr>
      else Undefined AssertionAbort)"

definition jointConstraintsFromEigen :: "planner_env \<Rightarrow> VectorXd \<Rightarrow> Constraints outcome" where
  "jointConstraintsFromEigen env state =
     (if NDEBUG env
      then Returned \<lparr>joint_constraints = [], position_constraints = [],
                     orientation_constraints = []\<rparr>
      else Undefined AssertionAbort)"

text \<open>
  The Cartesian branch of \<^verbatim>\<open>getStartAndGoal\<close> (lines 726-764): both solves are
  made, with the default hint, whatever the first one returns; when both succeed the
  request is overwritten.
\<close>

definition cartesian_start_and_goal ::
  "planner_env \<Rightarrow> MotionPlanRequest \<Rightarrow> (VectorXd \<times> VectorXd \<times> MotionPlanRequest) outcome" where
  "cartesian_start_and_goal env req =
     (let c = hd (trajectory_constraints req);
          pcs = position_constraints c;
          ocs = orientation_constraints c
      in case ikFromCartesianConstraints env (hd pcs) (hd ocs) (default_hint env) of
           Undefined u \<Rightarrow> Undefined u
         | Failed f1 \<Rightarrow>
             (case ikFromCartesianConstraints env (last pcs) (last ocs) (default_hint env) of
                Undefined u \<Rightarrow> Undefined u
              | Failed f2 \<Rightarrow> Failed StartIKFailed
              | Returned goal \<Rightarrow> Failed StartIKFailed)
         | Returned start \<Rightarrow>
             (case ikFromCartesianConstraints env (last pcs) (last ocs) (default_hint env) of
                Undefined u \<Rightarrow> Undefined u
              | Failed f2 \<Rightarrow> Failed GoalIKFailed
              | Returned goal \<Rightarrow>
                  (case robotStateFromEigen env start of
                     Returned s \<Rightarrow>
                       (case jointConstraintsFromEigen env goal of
                          Returned g \<Rightarrow>
                            Returned (start, goal, req\<lparr>start_state := s, goal_constraints := [g]\<rparr>)
                        | Failed f \<Rightarrow> Failed f
                        | Undefined u \<Rightarrow> Undefined u)
                   | Failed f \<Rightarrow> Failed f
                   | Undefined u \<Rightarrow> Undefined u)))"

text \<open>
  The joint branch (lines 765-853). A \<^verbatim>\<open>moveit::Exception\<close> is caught and makes the
  function return \<^verbatim>\<open>false\<close>.
\<close>

definition joint_start_and_goal ::
  "planner_env \<Rightarrow> MotionPlanRequest \<Rightarrow> (VectorXd \<times> VectorXd \<times> MotionPlanRequest) outcome" where
  "joint_start_and_goal env req =
     (case robotStateMsgToRobotState env (start_state req) (default_state env) of
        None \<Rightarrow> Failed StartStateUnavailable
      | Some st \<Rightarrow>
          if \<not> satisfiesBounds env st then Failed StartOutOfBounds
          else if goal_constraints req = [] then Failed NoGoalConstraint
          else (case goal_loop env (satisfiesBounds env) (goal_constraints req) st of
                  Returned (Some goal) \<Rightarrow>
                    Returned (map st (ActiveJointModelNames env), goal, req)
                | Returned None \<Rightarrow> Failed NoGoalFound
                | Failed f \<Rightarrow> Failed f
                | Undefined MoveItException \<Rightarrow> Failed MoveItExceptionCaught
                | Undefined u \<Rightarrow> Undefined u))"

text \<open>
  \<^verbatim>\<open>getStartAndGoal\<close> (lines 715-854). \<^verbatim>\<open>isCartesianSeed\<close> is called first, whatever
  the trajectory constraints of the request are.
\<close>

definition getStartAndGoal ::
  "planner_env \<Rightarrow> MotionPlanRequest \<Rightarrow> (VectorXd \<times> VectorXd \<times> MotionPlanRequest) outcome" where
  "getStartAndGoal env req =
     (case isCartesianSeed req of
        Returned True \<Rightarrow> cartesian_start_and_goal env req
      | Returned False \<Rightarrow> joint_start_and_goal env req
      | Failed f \<Rightarrow> Failed f
      | Undefined u \<Rightarrow> Undefined u)"

section \<open>The planning session\<close>

text \<open>
  \<^verbatim>\<open>parametersToJointTrajectory\<close> (lines 430-467): one point for each column, with
  zero velocities and accelerations, then the time parameterization.
\<close>

definition parametersToJointTrajectory ::
  "planner_env \<Rightarrow> MotionPlanRequest \<Rightarrow> MatrixXd \<Rightarrow> JointTrajectory outcome" where
  "parametersToJointTrajectory env req parameters =
     (let zeros = replicate (mat_rows parameters) 0;
          trajectory =
            \<lparr>joint_names = ActiveJointModelNames env,
             points = map (\<lambda>c. \<lparr>positions = c, velocities = zeros, accelerations = zeros,
                                 time_from_start = 0\<rparr>) (mat_columns parameters)\<rparr>
      in case computeTimeStamps env (start_state req) trajectory
                (max_velocity_scaling_factor req) of
           Some timed \<Rightarrow> Returned timed
         | None \<Rightarrow> Failed TimeParameterizationFailed)"

text \<open>
  What \<^verbatim>\<open>solve\<close> gives back: the value it returns, the response, the request
  (the member \<^verbatim>\<open>request_\<close> of the planner, which \<^verbatim>\<open>getStartAndGoal\<close> may
  overwrite) and the calls made to the optimizer.
\<close>

datatype optimizer_call = SolveSeed MatrixXd | SolveStartGoal VectorXd VectorXd

record session_result =
  returned :: bool
  response :: MotionPlanDetailedResponse
  planner_request :: MotionPlanRequest
  optimizer_calls :: "optimizer_call list"

text \<open>
  Lines 258-293 of \<^verbatim>\<open>solve\<close>: the result of the optimizer is converted, attached to
  the response and checked against the planning scene. The local variable
  \<^verbatim>\<open>success\<close> is set in the collision branch and never read: the function ends with
  \<^verbatim>\<open>return true\<close>.
\<close>

definition handle_results ::
  "planner_env \<Rightarrow> MotionPlanRequest \<Rightarrow> MotionPlanDetailedResponse \<Rightarrow> optimizer_call list \<Rightarrow>
   MatrixXd option \<Rightarrow> session_result outcome" where
  "handle_results env req res calls planning_result =
     (case planning_result of
        None \<Rightarrow>
          Returned \<lparr>returned = False, response = res\<lparr>res_error_code := PLANNING_FAILED\<rparr>,
                    planner_request = req, optimizer_calls = calls\<rparr>
      | Some parameters \<Rightarrow>
          (case parametersToJointTrajectory env req parameters of
             Failed f \<Rightarrow>
               Returned \<lparr>returned = False, response = res\<lparr>res_error_code := PLANNING_FAILED\<rparr>,
                         planner_request = req, optimizer_calls = calls\<rparr>
           | Undefined u \<Rightarrow> Undefined u
           | Returned trajectory \<Rightarrow>
               (let res1 = res\<lparr>res_trajectory := (res_trajectory res)[0 := Some trajectory]\<rparr>;
                    res2 = (if has_planning_scene env \<and> \<not> isPathValid env trajectory
                            then res1\<lparr>res_error_code := PLANNING_FAILED\<rparr> else res1)
                in Returned \<lparr>returned = True, response = res2, planner_request = req,
                             optimizer_calls = calls\<rparr>)))"

text \<open>
  \<^verbatim>\<open>solve(MotionPlanDetailedResponse&)\<close> (lines 174-293). The timer that calls
  \<^verbatim>\<open>terminate\<close> runs beside the optimizer and is not part of the model: what the
  optimizer returns, cancelled or not, is the value of \<open>stomp_solve_seed\<close> and
  \<open>stomp_solve\<close>.
\<close>

definition initial_response :: MotionPlanDetailedResponse where
  "initial_response = \<lparr>res_description = [[]], res_trajectory = [None], res_error_code = SUCCESS\<rparr>"

definition solve :: "planner_env \<Rightarrow> MotionPlanRequest \<Rightarrow> session_result outcome" where
  "solve env req =
     (case getSeedParameters env req of
        Undefined u \<Rightarrow> Undefined u
      | Returned initial_parameters \<Rightarrow>
          (let config_copy = (stomp_config env)\<lparr>num_timesteps := cols initial_parameters\<rparr> in
           if \<not> setMotionPlanRequest env req config_copy
           then Returned \<lparr>returned = False, response = initial_response\<lparr>res_error_code := FAILURE\<rparr>,
                          planner_request = req, optimizer_calls = []\<rparr>
           else handle_results env req initial_response [SolveSeed initial_parameters]
                  (stomp_solve_seed env config_copy initial_parameters))
      | Failed f \<Rightarrow>
          (case getStartAndGoal env req of
             Undefined u \<Rightarrow> Undefined u
           | Failed g \<Rightarrow>
               Returned \<lparr>returned = False,
                         response = initial_response\<lparr>res_error_code := INVALID_MOTION_PLAN\<rparr>,
                         planner_request = req, optimizer_calls = []\<rparr>
           | Returned (start, goal, req') \<Rightarrow>
               if \<not> setMotionPlanRequest env req' (stomp_config env)
               then Returned \<lparr>returned = False,
                              response = initial_response\<lparr>res_error_code := FAILURE\<rparr>,
                              planner_request = req', optimizer_calls = []\<rparr>
               else handle_results env req' initial_response [SolveStartGoal start goal]
                      (stomp_solve env (stomp_config env) start goal)))"

section \<open>Notions used in the statements\<close>



text \<open>
  The hint that the comment of line 652 announces, ``nominal chain configuration midway
  between all joint limits'', for given lower and upper limits. The source never
  computes it.
\<close>

definition midrange_hint :: "VectorXd \<Rightarrow> VectorXd \<Rightarrow> VectorXd" where
  "midrange_hint lower upper = map (\<lambda>(l, u). (l + u) / 2) (zip lower upper)"

text \<open>
  The distance in the words of the specification: the sum of the absolute differences of
  the joint values, as a sum of real numbers, without rounding.
\<close>

definition exact_l1_distance :: "VectorXd \<Rightarrow> VectorXd \<Rightarrow> real" where
  "exact_l1_distance a b = sum_list (map (\<lambda>(u, v). \<bar>u - v\<bar>) (zip a b))"

section \<open>The arithmetic of IEEE 754 doubles\<close>

text \<open>
  Rounding of a real number to the nearest double, ties to the even significand. A double
  has a significand of 53 bits: in the binade of \<open>2 powi e\<close> the doubles are the
  multiples of \<open>2 powi (e - 52)\<close>, and below \<open>2 powi (- 1022)\<close> the multiples of
  \<open>2 powi (- 1074)\<close>. A result of magnitude \<open>2 powi 1024\<close> or more is an infinity
  (\<open>None\<close>).
\<close>

definition round_half_even :: "real \<Rightarrow> int" where
  "round_half_even y =
     (let f = \<lfloor>y\<rfloor>; r = y - of_int f
      in if r < 1 / 2 then f else if 1 / 2 < r then f + 1 else if even f then f else f + 1)"

definition ieee_round :: "real \<Rightarrow> real option" where
  "ieee_round x =
     (if x = 0 then Some 0
      else let e = max \<lfloor>log 2 \<bar>x\<bar>\<rfloor> (- 1022);
               ulp = 2 powi (e - 52);
               r = of_int (round_half_even (x / ulp)) * ulp
           in if \<bar>r\<bar> < 2 powi 1024 then Some r else None)"

text \<open>
  The sum of a vector, one rounded addition after the other from the first coefficient
  on, as the scalar reduction of Eigen does it (for two coefficients there is no other
  order).
\<close>

fun ieee_sum_from :: "real \<Rightarrow> real list \<Rightarrow> real option" where
  "ieee_sum_from acc [] = Some acc"
| "ieee_sum_from acc (x # xs) =
     (case ieee_round (acc + x) of
        None \<Rightarrow> None
      | Some s \<Rightarrow> ieee_sum_from s xs)"

fun ieee_sum :: "real list \<Rightarrow> real option" where
  "ieee_sum [] = Some 0"
| "ieee_sum (x # xs) = ieee_sum_from x xs"

section \<open>A robot with two joints\<close>

text \<open>
  A gantry with the joints \<open>x\<close> and \<open>y\<close>, each within \<open>[-3, 3]\<close>. The pose
  \<open>(px, py, pz)\<close> is reached by the joint values \<open>[px, py]\<close>, and no pose below the
  floor (\<open>pz < 0\<close>) is reachable. A path is in collision when a joint value leaves
  \<open>[-1, 1]\<close>. Smoothing and time parameterization change nothing, the optimizer returns
  the seed it is given, or the start repeated and then the goal. The arithmetic of this
  environment does not round; \<open>ieee_env\<close> below is the same robot with the arithmetic of
  IEEE 754 doubles.
\<close>

definition example_state_from_msg :: "RobotStateMsg \<Rightarrow> RobotState \<Rightarrow> RobotState option" where
  "example_state_from_msg msg st =
     (if length (joint_state_name msg) = length (joint_state_position msg)
      then Some (\<lambda>n. case map_of (zip (joint_state_name msg) (joint_state_position msg)) n of
                        Some v \<Rightarrow> v
                      | None \<Rightarrow> st n)
      else None)"

definition example_bounds :: "RobotState \<Rightarrow> bool" where
  "example_bounds st = (\<bar>st ''x''\<bar> \<le> 3 \<and> \<bar>st ''y''\<bar> \<le> 3)"

definition example_CartToJnt :: "VectorXd \<Rightarrow> Point \<times> Quaternion \<Rightarrow> VectorXd option" where
  "example_CartToJnt nominal pose =
     (case pose of ((px, py, pz), q) \<Rightarrow> if pz < 0 then None else Some [px, py])"

definition example_stomp_solve :: "StompConfiguration \<Rightarrow> VectorXd \<Rightarrow> VectorXd \<Rightarrow> MatrixXd option" where
  "example_stomp_solve cfg start goal =
     Some \<lparr>mat_rows = length start,
           mat_columns = replicate (num_timesteps cfg - 1) start @ [goal]\<rparr>"

definition example_path_valid :: "JointTrajectory \<Rightarrow> bool" where
  "example_path_valid traj =
     list_all (\<lambda>pt. list_all (\<lambda>v. \<bar>v\<bar> \<le> 1) (positions pt)) (points traj)"

definition example_env :: planner_env where
  "example_env =
     \<lparr>ActiveJointModelNames = [''x'', ''y''],
      JointRoots = 1,
      hasVariable = (\<lambda>n. n = ''x'' \<or> n = ''y''),
      default_state = (\<lambda>n. 0),
      robotStateMsgToRobotState = example_state_from_msg,
      enforceBounds = (\<lambda>st. st),
      satisfiesBounds_group = example_bounds,
      satisfiesBounds = example_bounds,
      getKDLChain = Some 2,
      CartToJnt = example_CartToJnt,
      default_hint = [],
      applyPolynomialSmoothing = Some,
      setMotionPlanRequest = (\<lambda>req cfg. True),
      stomp_solve_seed = (\<lambda>cfg m. Some m),
      stomp_solve = example_stomp_solve,
      computeTimeStamps = (\<lambda>st traj factor. Some traj),
      has_planning_scene = True,
      isPathValid = example_path_valid,
      stomp_config = \<lparr>num_timesteps = 4, num_dimensions = 2\<rparr>,
      NDEBUG = False,
      double_sub = (\<lambda>a b. Some (a - b)),
      double_sum = (\<lambda>ds. Some (sum_list ds))\<rparr>"

text \<open>The same robot with the arithmetic of IEEE 754 doubles.\<close>

definition ieee_env :: planner_env where
  "ieee_env = example_env\<lparr>double_sub := (\<lambda>a b. ieee_round (a - b)), double_sum := ieee_sum\<rparr>"

text \<open>
  The same robot with a solver whose answer depends on the configuration it is started
  from: the second joint value found is the one of \<open>example_CartToJnt\<close> plus the sum
  of the start configuration.
\<close>

definition warm_CartToJnt :: "VectorXd \<Rightarrow> Point \<times> Quaternion \<Rightarrow> VectorXd option" where
  "warm_CartToJnt nominal pose =
     (case pose of ((px, py, pz), q) \<Rightarrow>
        if pz < 0 then None else Some [px, py + sum_list nominal])"

definition warm_env :: planner_env where
  "warm_env = example_env\<lparr>CartToJnt := warm_CartToJnt\<rparr>"

text \<open>The same robot with a solver that answers with the start configuration it was given.\<close>

definition echo_env :: planner_env where
  "echo_env = example_env\<lparr>CartToJnt := (\<lambda>nominal pose. Some nominal)\<rparr>"

definition joint_waypoint :: "real \<Rightarrow> real \<Rightarrow> Constraints" where
  "joint_waypoint a b =
     \<lparr>joint_constraints = [\<lparr>joint_name = ''x'', position = a\<rparr>,
                            \<lparr>joint_name = ''y'', position = b\<rparr>],
      position_constraints = [], orientation_constraints = []\<rparr>"

definition cartesian_waypoints :: "Point list \<Rightarrow> Constraints" where
  "cartesian_waypoints ps =
     \<lparr>joint_constraints = [],
      position_constraints = map (\<lambda>p. \<lparr>target_point_offset = p\<rparr>) ps,
      orientation_constraints = map (\<lambda>p. \<lparr>orientation = (0, 0, 0, 1)\<rparr>) ps\<rparr>"

text \<open>A request: the start state, the goal constraints, the trajectory constraints.\<close>

definition example_request ::
  "real \<Rightarrow> real \<Rightarrow> Constraints list \<Rightarrow> Constraints list \<Rightarrow> MotionPlanRequest" where
  "example_request a b goals seed =
     \<lparr>start_state = \<lparr>joint_state_name = [''x'', ''y''], joint_state_position = [a, b]\<rparr>,
      goal_constraints = goals,
      trajectory_constraints = seed,
      allowed_planning_time = 5,
      max_velocity_scaling_factor = 1\<rparr>"

definition example_seed :: JointTrajectory where
  "example_seed =
     \<lparr>joint_names = [''x'', ''y''],
      points = [joint_pt_of [0, 0], joint_pt_of [1 / 2, 1 / 4], joint_pt_of [1, 1 / 2]]\<rparr>"

text \<open>
  Seed matrices for a request that starts at \<open>(0, 0)\<close> and has the goal \<open>(1, 1)\<close>:
  the first column of \<open>rounding_matrix\<close> is at the distance \<open>1 / 2 + 1 / 2 ^ 60\<close> of
  the start, which no double holds; the first column of \<open>far_matrix\<close> is at the
  distance 1. All values are doubles. \<open>zero_state\<close> is the robot state of the
  start of this request.
\<close>

definition zero_state :: RobotState where
  "zero_state = (\<lambda>n. 0)"

definition rounding_request :: MotionPlanRequest where
  "rounding_request = example_request 0 0 [joint_waypoint 1 1] []"

definition rounding_matrix :: MatrixXd where
  "rounding_matrix =
     \<lparr>mat_rows = 2, mat_columns = [[1 / 2, 1 / 2 ^ 60], [1 / 2, 1 / 2], [1, 1]]\<rparr>"

definition far_matrix :: MatrixXd where
  "far_matrix = \<lparr>mat_rows = 2, mat_columns = [[1, 0], [1 / 2, 1 / 2], [1, 1]]\<rparr>"

definition snapped_matrix :: MatrixXd where
  "snapped_matrix = \<lparr>mat_rows = 2, mat_columns = [[0, 0], [1 / 2, 1 / 2], [1, 1]]\<rparr>"

text \<open>A joint seed of three points whose middle point is in collision.\<close>

definition colliding_request :: MotionPlanRequest where
  "colliding_request =
     example_request (1 / 10) 0 [joint_waypoint 1 (4 / 5)]
       [joint_waypoint 0 0, joint_waypoint 2 (1 / 2), joint_waypoint 1 1]"

definition colliding_trajectory :: JointTrajectory where
  "colliding_trajectory =
     \<lparr>joint_names = [''x'', ''y''],
      points = map (\<lambda>c. \<lparr>positions = c, velocities = [0, 0], accelerations = [0, 0],
                          time_from_start = 0\<rparr>) [[1 / 10, 0], [2, 1 / 2], [1, 4 / 5]]\<rparr>"

text \<open>Cartesian seeds of three waypoints: the second, or the first, is unreachable.\<close>

definition interior_failure_request :: MotionPlanRequest where
  "interior_failure_request =
     example_request 0 0 [] [cartesian_waypoints [(1, 2, 1), (1, 1, -1), (2, 2, 1)]]"

definition first_failure_request :: MotionPlanRequest where
  "first_failure_request =
     example_request 0 0 [] [cartesian_waypoints [(1, 2, -1), (1, 1, 1), (2, 2, 1)]]"


text \<open>No seed, a start within bounds, one joint goal within bounds.\<close>

definition unseeded_request :: MotionPlanRequest where
  "unseeded_request = example_request 0 0 [joint_waypoint 1 1] []"

text \<open>Trajectory constraints with a position constraint and nothing else.\<close>

definition position_only_request :: MotionPlanRequest where
  "position_only_request =
     example_request 0 0 [joint_waypoint 1 1]
       [\<lparr>joint_constraints = [],
         position_constraints = [\<lparr>target_point_offset = (1, 2, 1)\<rparr>],
         orientation_constraints = []\<rparr>]"

lemmas example_defs = example_env_def example_state_from_msg_def example_bounds_def
  example_CartToJnt_def example_stomp_solve_def example_path_valid_def joint_waypoint_def
  cartesian_waypoints_def example_request_def example_seed_def joint_pt_of_def

section \<open>The round trip of a seed trajectory\<close>

lemma encode_points_ok:
  "list_all (\<lambda>pt. length (positions pt) = length names) pts \<Longrightarrow>
   encode_points names pts = Returned (map (encode_point names) pts)"
  by (induction pts) auto

lemma seed_joint_point_zip:
  "length ps = length names \<Longrightarrow>
   seed_joint_point names (map (\<lambda>(nm, p). \<lparr>joint_name = nm, position = p\<rparr>) (zip names ps)) acc
     = Returned (acc @ ps)"
proof (induction names arbitrary: ps acc)
  case Nil
  then show ?case by simp
next
  case (Cons nm names)
  then obtain p ps' where ps: "ps = p # ps'" by (cases ps) auto
  with Cons show ?case by simp
qed

lemma seed_joint_points_encoded:
  "list_all (\<lambda>pt. length (positions pt) = length names) pts \<Longrightarrow>
   seed_joint_points names (map (encode_point names) pts) acc
     = Returned (acc @ map (\<lambda>pt. joint_pt_of (positions pt)) pts)"
proof (induction pts arbitrary: acc)
  case Nil
  then show ?case by simp
next
  case (Cons pt pts)
  then show ?case
    by (simp add: encode_point_def seed_joint_point_zip joint_pt_of_def)
qed

text \<open>
  Claim C9. Let every point of a joint trajectory have one position for each active joint
  of the group, the joint names of the trajectory being those of the group, in order.
  Then \<open>encodeSeedTrajectory\<close> returns constraints, \<open>extractSeedJointTrajectory\<close>
  reads a request with these trajectory constraints into a trajectory, and
  \<open>jointTrajectorytoParameters\<close> makes of it the matrix whose columns are the positions
  of the points of the original trajectory (no arithmetic is done on the way, so the
  columns are equal, not only close).
\<close>

theorem seed_roundtrip:
  assumes names: "joint_names seed = ActiveJointModelNames env"
    and dims: "list_all (\<lambda>pt. length (positions pt) = length (joint_names seed)) (points seed)"
  shows "\<exists>cs traj.
           encodeSeedTrajectory seed = Returned cs \<and>
           extractSeedJointTrajectory env (req\<lparr>trajectory_constraints := cs\<rparr>) empty_trajectory
             = Returned traj \<and>
           jointTrajectorytoParameters traj
             = Returned \<lparr>mat_rows = length (joint_names seed),
                          mat_columns = map positions (points seed)\<rparr>"
proof -
  let ?names = "joint_names seed"
  let ?cs = "map (encode_point ?names) (points seed)"
  let ?traj = "\<lparr>joint_names = ?names,
                points = map (\<lambda>pt. joint_pt_of (positions pt)) (points seed)\<rparr>"
  have enc: "encodeSeedTrajectory seed = Returned ?cs"
    using dims by (simp add: encodeSeedTrajectory_def encode_points_ok)
  have ext: "extractSeedJointTrajectory env (req\<lparr>trajectory_constraints := ?cs\<rparr>) empty_trajectory
               = Returned ?traj"
    using dims names [symmetric]
    by (simp add: extractSeedJointTrajectory_def empty_trajectory_def seed_joint_points_encoded)
  have all: "list_all (\<lambda>pt. length ?names \<le> length (positions pt))
               (map (\<lambda>pt. joint_pt_of (positions pt)) (points seed))"
    using dims by (simp add: list_all_iff joint_pt_of_def)
  have cs: "map (\<lambda>pt. take (length ?names) (positions pt))
              (map (\<lambda>pt. joint_pt_of (positions pt)) (points seed)) = map positions (points seed)"
    using dims by (simp add: list_all_iff joint_pt_of_def)
  have par: "jointTrajectorytoParameters ?traj
               = Returned \<lparr>mat_rows = length ?names, mat_columns = map positions (points seed)\<rparr>"
    unfolding jointTrajectorytoParameters_def Let_def using all cs by simp
  from enc ext par show ?thesis by blast
qed

theorem seed_roundtrip_witness:
  "\<exists>cs traj.
     encodeSeedTrajectory example_seed = Returned cs \<and>
     extractSeedJointTrajectory example_env (unseeded_request\<lparr>trajectory_constraints := cs\<rparr>)
       empty_trajectory = Returned traj \<and>
     jointTrajectorytoParameters traj
       = Returned \<lparr>mat_rows = 2, mat_columns = [[0, 0], [1 / 2, 1 / 4], [1, 1 / 2]]\<rparr>"
proof -
  have n: "joint_names example_seed = ActiveJointModelNames example_env"
    by (simp add: example_seed_def example_env_def)
  have d: "list_all (\<lambda>pt. length (positions pt) = length (joint_names example_seed))
             (points example_seed)"
    by (simp add: example_seed_def joint_pt_of_def)
  have l: "length (joint_names example_seed) = 2" by (simp add: example_seed_def)
  have p: "map positions (points example_seed) = [[0, 0], [1 / 2, 1 / 4], [1, 1 / 2]]"
    by (simp add: example_seed_def joint_pt_of_def)
  from seed_roundtrip [OF n d, of unseeded_request] show ?thesis
    unfolding l p .
qed

section \<open>Seeds from Cartesian waypoints\<close>

text \<open>A solve returns or fails, unless the assertion on the joint roots stops it.\<close>

lemma ik_cases:
  "NDEBUG env \<or> JointRoots env = 1 \<Longrightarrow>
   (\<exists>r. ikFromCartesianConstraints env p oc h = Returned r) \<or>
   (\<exists>f. ikFromCartesianConstraints env p oc h = Failed f)"
  by (auto simp: ikFromCartesianConstraints_def split: option.splits)

text \<open>
  The loop goes through all waypoints: it adds one point for each, never lowers the
  failure count, and its last point holds the last \<^verbatim>\<open>joint_pos\<close>.
\<close>

lemma loop_returns:
  "NDEBUG env \<or> JointRoots env = 1 \<Longrightarrow> length ps \<le> length os \<Longrightarrow>
   \<exists>jp' fc' new. cartesian_seed_loop env ps os jp fc pts = Returned (jp', fc', pts @ new) \<and>
      length new = length ps \<and> fc \<le> fc' \<and> (ps \<noteq> [] \<longrightarrow> last new = joint_pt_of jp')"
proof (induction env ps os jp fc pts rule: cartesian_seed_loop.induct)
  case (1 env os joint_pos fail_count pts)
  then show ?case by simp
next
  case (2 env p ps joint_pos fail_count pts)
  then show ?case by simp
next
  case (3 env p ps oc os joint_pos fail_count pts)
  from "3.prems" have len: "length ps \<le> length os" by simp
  from ik_cases [OF "3.prems"(1), of p oc joint_pos]
  show ?case
  proof
    assume "\<exists>r. ikFromCartesianConstraints env p oc joint_pos = Returned r"
    then obtain r where r: "ikFromCartesianConstraints env p oc joint_pos = Returned r" ..
    from "3.IH"(1) [OF r "3.prems"(1) len]
    obtain jp' fc' new where
      h: "cartesian_seed_loop env ps os r fail_count (pts @ [joint_pt_of r])
            = Returned (jp', fc', (pts @ [joint_pt_of r]) @ new)"
         "length new = length ps" "fail_count \<le> fc'" "ps \<noteq> [] \<longrightarrow> last new = joint_pt_of jp'"
      by blast
    have e: "ps = [] \<Longrightarrow> jp' = r \<and> new = []" using h(1,2) by simp
    have "cartesian_seed_loop env (p # ps) (oc # os) joint_pos fail_count pts
            = Returned (jp', fc', pts @ (joint_pt_of r # new))"
      using r h(1) by simp
    moreover have "length (joint_pt_of r # new) = length (p # ps)" using h(2) by simp
    moreover have "last (joint_pt_of r # new) = joint_pt_of jp'"
      using h(2,4) e by (cases "ps = []") auto
    ultimately show ?thesis using h(3) by blast
  next
    assume "\<exists>f. ikFromCartesianConstraints env p oc joint_pos = Failed f"
    then obtain f where f: "ikFromCartesianConstraints env p oc joint_pos = Failed f" ..
    from "3.IH"(2) [OF f "3.prems"(1) len]
    obtain jp' fc' new where
      h: "cartesian_seed_loop env ps os joint_pos (fail_count + 1) (pts @ [joint_pt_of joint_pos])
            = Returned (jp', fc', (pts @ [joint_pt_of joint_pos]) @ new)"
         "length new = length ps" "fail_count + 1 \<le> fc'" "ps \<noteq> [] \<longrightarrow> last new = joint_pt_of jp'"
      by blast
    have e: "ps = [] \<Longrightarrow> jp' = joint_pos \<and> new = []" using h(1,2) by simp
    have "cartesian_seed_loop env (p # ps) (oc # os) joint_pos fail_count pts
            = Returned (jp', fc', pts @ (joint_pt_of joint_pos # new))"
      using f h(1) by simp
    moreover have "length (joint_pt_of joint_pos # new) = length (p # ps)" using h(2) by simp
    moreover have "last (joint_pt_of joint_pos # new) = joint_pt_of jp'"
      using h(2,4) e by (cases "ps = []") auto
    moreover have "fail_count \<le> fc'" using h(3) by simp
    ultimately show ?thesis by blast
  qed
qed

text \<open>The loop over two runs of waypoints is the loop over the first, then over the second.\<close>

lemma loop_append:
  "length ps1 = length os1 \<Longrightarrow>
   cartesian_seed_loop env (ps1 @ ps2) (os1 @ os2) jp fc pts =
     (case cartesian_seed_loop env ps1 os1 jp fc pts of
        Returned (jp1, fc1, pts1) \<Rightarrow> cartesian_seed_loop env ps2 os2 jp1 fc1 pts1
      | Failed f \<Rightarrow> Failed f
      | Undefined u \<Rightarrow> Undefined u)"
proof (induction ps1 os1 arbitrary: jp fc pts rule: list_induct2)
  case Nil
  then show ?case by simp
next
  case (Cons p ps1 oc os1)
  then show ?case by (simp split: outcome.splits)
qed

text \<open>
  Over a run of waypoints that are all solved, each from the solution of the one before
  (the first from the \<^verbatim>\<open>joint_pos\<close> the loop starts with), the loop adds these
  solutions as points, leaves the failure count as it is and ends with the last
  solution as \<^verbatim>\<open>joint_pos\<close>.
\<close>

lemma loop_solved_run:
  "length ps = length os \<Longrightarrow> length os = length qs \<Longrightarrow>
   \<forall>i<length ps. ikFromCartesianConstraints env (ps ! i) (os ! i)
       (if i = 0 then jp else qs ! (i - 1)) = Returned (qs ! i) \<Longrightarrow>
   cartesian_seed_loop env ps os jp fc pts
     = Returned (last (jp # qs), fc, pts @ map joint_pt_of qs)"
proof (induction ps os qs arbitrary: jp pts rule: list_induct3)
  case Nil
  then show ?case by simp
next
  case (Cons p ps oc os q qs)
  from Cons.prems have first: "ikFromCartesianConstraints env p oc jp = Returned q"
    by fastforce
  have rest: "\<forall>i<length ps. ikFromCartesianConstraints env (ps ! i) (os ! i)
                (if i = 0 then q else qs ! (i - 1)) = Returned (qs ! i)"
  proof (intro allI impI)
    fix i assume i: "i < length ps"
    with Cons.prems have "ikFromCartesianConstraints env ((p # ps) ! Suc i) ((oc # os) ! Suc i)
        (if Suc i = 0 then jp else (q # qs) ! (Suc i - 1)) = Returned ((q # qs) ! Suc i)"
      by (metis Suc_less_eq length_Cons)
    then show "ikFromCartesianConstraints env (ps ! i) (os ! i)
        (if i = 0 then q else qs ! (i - 1)) = Returned (qs ! i)"
      by (cases i) simp_all
  qed
  from Cons.IH [OF rest, of "pts @ [joint_pt_of q]"] first
  show ?case by simp
qed

text \<open>
  Claim C5. A Cartesian seed of \<open>n\<close> waypoints (one constraint set, as many orientation
  as position constraints) is extracted into a fresh trajectory. Every waypoint but
  waypoint \<open>k\<close>, \<open>0 < k < n - 1\<close>, is solved: waypoint \<open>j\<close> has the solution
  \<open>qs ! j\<close> when the solver is started from the point before it, the first waypoint
  from the empty hint. The solve of waypoint \<open>k\<close>, started from the solution of waypoint
  \<open>k - 1\<close>, fails. Then the extraction does not stop: it returns the seed whose \<open>n\<close>
  points are these solutions, with the solution of waypoint \<open>k - 1\<close> standing at
  \<open>k\<close> as well, and it reports the failure count 1. So point \<open>k\<close> is equal to
  point \<open>k - 1\<close>, which holds the last solution found. Solvability is asked only
  for the hints that the chain supplies, so the solver may depend on its hint.
\<close>

theorem cartesian_seed_interior_failure:
  assumes req: "trajectory_constraints req = [c]"
    and np: "length (position_constraints c) = n"
    and no: "length (orientation_constraints c) = n"
    and k: "0 < k" "k < n - 1"
    and nq: "length qs = n"
    and out: "out = qs[k := qs ! (k - 1)]"
    and solvable: "\<forall>j<n. j \<noteq> k \<longrightarrow>
        ikFromCartesianConstraints env (position_constraints c ! j) (orientation_constraints c ! j)
          (if j = 0 then [] else out ! (j - 1)) = Returned (qs ! j)"
    and unsolvable: "ikFromCartesianConstraints env (position_constraints c ! k)
        (orientation_constraints c ! k) (out ! (k - 1)) = Failed f"
    and fresh: "points seed = []"
  shows "extractSeedCartesianTrajectory env req seed
           = Returned (seed\<lparr>points := map joint_pt_of out,
                            joint_names := ActiveJointModelNames env\<rparr>, 1) \<and>
         length (map joint_pt_of out) = n \<and>
         map joint_pt_of out ! k = map joint_pt_of out ! (k - 1) \<and>
         positions (map joint_pt_of out ! (k - 1)) = qs ! (k - 1)"
proof -
  let ?ps = "position_constraints c" and ?os = "orientation_constraints c"
  let ?ps1 = "take k ?ps" and ?os1 = "take k ?os" and ?qs1 = "take k qs"
  let ?ps2 = "drop (Suc k) ?ps" and ?os2 = "drop (Suc k) ?os" and ?qs2 = "drop (Suc k) qs"
  let ?prev = "qs ! (k - 1)"
  from k have kn: "k < n" by simp
  have ps: "?ps = ?ps1 @ (?ps ! k # ?ps2)" using kn np by (simp add: id_take_nth_drop)
  have os: "?os = ?os1 @ (?os ! k # ?os2)" using kn no by (simp add: id_take_nth_drop)
  have outs: "out = ?qs1 @ (?prev # ?qs2)"
    using kn nq out by (simp add: upd_conv_take_nth_drop)
  have l1: "length ?ps1 = length ?os1" "length ?os1 = length ?qs1" using np no nq by simp_all
  have l2: "length ?ps2 = length ?os2" "length ?os2 = length ?qs2" using np no nq by simp_all
  have s1: "\<forall>i<length ?ps1. ikFromCartesianConstraints env (?ps1 ! i) (?os1 ! i)
              (if i = 0 then [] else ?qs1 ! (i - 1)) = Returned (?qs1 ! i)"
  proof (intro allI impI)
    fix i assume "i < length ?ps1"
    then have i: "i < k" using kn np by simp
    then have "i < n" "i \<noteq> k" using kn by simp_all
    with solvable have "ikFromCartesianConstraints env (?ps ! i) (?os ! i)
        (if i = 0 then [] else out ! (i - 1)) = Returned (qs ! i)" by blast
    moreover have "i \<noteq> 0 \<Longrightarrow> out ! (i - 1) = qs ! (i - 1)" using i out by simp
    ultimately show "ikFromCartesianConstraints env (?ps1 ! i) (?os1 ! i)
        (if i = 0 then [] else ?qs1 ! (i - 1)) = Returned (?qs1 ! i)"
      using i by (cases "i = 0") simp_all
  qed
  have s2: "\<forall>i<length ?ps2. ikFromCartesianConstraints env (?ps2 ! i) (?os2 ! i)
              (if i = 0 then ?prev else ?qs2 ! (i - 1)) = Returned (?qs2 ! i)"
  proof (intro allI impI)
    fix i assume "i < length ?ps2"
    then have i: "Suc k + i < n" using np by simp
    then have "Suc k + i \<noteq> k" by simp
    with solvable i have j: "ikFromCartesianConstraints env (?ps ! (Suc k + i)) (?os ! (Suc k + i))
        (if Suc k + i = 0 then [] else out ! (Suc k + i - 1)) = Returned (qs ! (Suc k + i))"
      by blast
    have h: "out ! (k + i) = (if i = 0 then ?prev else qs ! (k + i))"
      using out kn nq by (simp add: nth_list_update)
    have d: "i \<noteq> 0 \<Longrightarrow> ?qs2 ! (i - 1) = qs ! (k + i)"
      using i nq by simp
    from j h d show "ikFromCartesianConstraints env (?ps2 ! i) (?os2 ! i)
        (if i = 0 then ?prev else ?qs2 ! (i - 1)) = Returned (?qs2 ! i)"
      using i np no nq by (cases "i = 0") simp_all
  qed
  have ne: "?qs1 \<noteq> []" using k kn nq by auto
  have lastq: "last ([] # ?qs1) = ?prev"
    using ne k kn nq by (simp add: last_conv_nth)
  have a: "cartesian_seed_loop env ?ps1 ?os1 [] 0 [] = Returned (?prev, 0, map joint_pt_of ?qs1)"
    using loop_solved_run [OF l1 s1, of 0 "[]"] lastq by simp
  have prev_out: "out ! (k - 1) = ?prev" using out k by simp
  from unsolvable prev_out have f: "ikFromCartesianConstraints env (?ps ! k) (?os ! k) ?prev = Failed f"
    by simp
  have b: "cartesian_seed_loop env ?ps2 ?os2 ?prev 1 (map joint_pt_of ?qs1 @ [joint_pt_of ?prev])
             = Returned (last (?prev # ?qs2), 1,
                 (map joint_pt_of ?qs1 @ [joint_pt_of ?prev]) @ map joint_pt_of ?qs2)"
    by (rule loop_solved_run [OF l2 s2])
  have "cartesian_seed_loop env (?ps1 @ (?ps ! k # ?ps2)) (?os1 @ (?os ! k # ?os2)) [] 0 []
          = Returned (last (?prev # ?qs2), 1, map joint_pt_of out)"
    using a f b outs by (simp add: loop_append [OF l1(1)])
  then have loop: "cartesian_seed_loop env ?ps ?os [] 0 []
                     = Returned (last (?prev # ?qs2), 1, map joint_pt_of out)"
    using ps os by simp
  have res: "extractSeedCartesianTrajectory env req seed
          = Returned (seed\<lparr>points := map joint_pt_of out,
                           joint_names := ActiveJointModelNames env\<rparr>, 1)"
    using req np no kn loop fresh by (simp add: extractSeedCartesianTrajectory_def)
  have len: "length (map joint_pt_of out) = n" using out nq by simp
  have lo: "k < length out" "k - 1 < length out" using out nq kn by simp_all
  have ok: "out ! k = ?prev" using out kn nq by simp
  have same: "map joint_pt_of out ! k = map joint_pt_of out ! (k - 1)"
    using lo ok prev_out by simp
  have sol: "positions (map joint_pt_of out ! (k - 1)) = ?prev"
    using lo prev_out by (simp add: joint_pt_of_def)
  from res len same sol show ?thesis by simp
qed

theorem cartesian_seed_interior_failure_witness:
  "extractSeedCartesianTrajectory warm_env interior_failure_request empty_trajectory
     = Returned (\<lparr>joint_names = [''x'', ''y''],
                  points = [joint_pt_of [1, 2], joint_pt_of [1, 2], joint_pt_of [2, 5]]\<rparr>, 1)"
proof -
  let ?c = "cartesian_waypoints [(1, 2, 1), (1, 1, -1), (2, 2, 1)]"
  let ?qs = "[[1, 2], [], [2, 5 :: real]]"
  have r: "trajectory_constraints interior_failure_request = [?c]"
    by (simp add: interior_failure_request_def example_request_def)
  have np: "length (position_constraints ?c) = 3" by (simp add: cartesian_waypoints_def)
  have no: "length (orientation_constraints ?c) = 3" by (simp add: cartesian_waypoints_def)
  have nq: "length ?qs = 3" by simp
  have out: "[[1, 2], [1, 2], [2, 5 :: real]] = ?qs[1 := ?qs ! (1 - 1)]" by simp
  have s: "\<forall>j<3. j \<noteq> 1 \<longrightarrow>
        ikFromCartesianConstraints warm_env (position_constraints ?c ! j)
          (orientation_constraints ?c ! j)
          (if j = 0 then [] else [[1, 2], [1, 2], [2, 5]] ! (j - 1)) = Returned (?qs ! j)"
  proof (intro allI impI)
    fix j :: nat assume "j < 3" "j \<noteq> 1"
    then have "j = 0 \<or> j = 2" by arith
    then show "ikFromCartesianConstraints warm_env (position_constraints ?c ! j)
          (orientation_constraints ?c ! j)
          (if j = 0 then [] else [[1, 2], [1, 2], [2, 5]] ! (j - 1)) = Returned (?qs ! j)"
      by (auto simp: ikFromCartesianConstraints_def ik_nominal_def cartesian_waypoints_def
          warm_env_def warm_CartToJnt_def example_env_def numeral_2_eq_2)
  qed
  have u: "ikFromCartesianConstraints warm_env (position_constraints ?c ! 1)
        (orientation_constraints ?c ! 1) ([[1, 2], [1, 2], [2, 5]] ! (1 - 1)) = Failed IKFailed"
    by (simp add: ikFromCartesianConstraints_def cartesian_waypoints_def
        warm_env_def warm_CartToJnt_def example_env_def)
  have f: "points empty_trajectory = []" by (simp add: empty_trajectory_def)
  have e: "empty_trajectory\<lparr>points := map joint_pt_of [[1, 2], [1, 2], [2, 5]],
              joint_names := ActiveJointModelNames warm_env\<rparr>
           = \<lparr>joint_names = [''x'', ''y''],
               points = [joint_pt_of [1, 2], joint_pt_of [1, 2], joint_pt_of [2, 5]]\<rparr>"
    by (simp add: empty_trajectory_def warm_env_def example_env_def)
  from cartesian_seed_interior_failure [OF r np no _ _ nq out s u f]
  show ?thesis unfolding e by simp
qed

text \<open>
  Claim C10. A Cartesian seed (one constraint set, as many orientation as position
  constraints, at least one) is extracted into a fresh trajectory, and the solve of the
  first waypoint, whose hint is the empty vector, fails. Then the extraction still
  returns a seed; its first point has no positions at all, the failure count is at least
  1, and, the group having at least one active joint, not every point of the seed has
  one position for each active joint.
\<close>

theorem cartesian_seed_first_failure:
  assumes req: "trajectory_constraints req = [c]"
    and len: "length (position_constraints c) = length (orientation_constraints c)"
    and ne: "position_constraints c \<noteq> []"
    and fails: "ikFromCartesianConstraints env (hd (position_constraints c))
                  (hd (orientation_constraints c)) [] = Failed f"
    and dof: "ActiveJointModelNames env \<noteq> []"
    and fresh: "points seed = []"
  shows "\<exists>seed' fail_count.
           extractSeedCartesianTrajectory env req seed = Returned (seed', fail_count) \<and>
           points seed' \<noteq> [] \<and> positions (hd (points seed')) = [] \<and> 1 \<le> fail_count \<and>
           \<not> list_all (\<lambda>pt. length (positions pt) = length (ActiveJointModelNames env))
                (points seed')"
proof -
  obtain p ps where ps: "position_constraints c = p # ps"
    using ne by (cases "position_constraints c") auto
  obtain oc os where os: "orientation_constraints c = oc # os"
    using len ps by (cases "orientation_constraints c") auto
  from fails ps os have f: "ikFromCartesianConstraints env p oc [] = Failed f" by simp
  then have asserts: "NDEBUG env \<or> JointRoots env = 1"
    by (auto simp: ikFromCartesianConstraints_def split: if_splits)
  have l: "length ps \<le> length os" using len ps os by simp
  from loop_returns [OF asserts l, of "[]" 1 "[joint_pt_of []]"]
  obtain jp' fc' new where
    h: "cartesian_seed_loop env ps os [] 1 [joint_pt_of []] = Returned (jp', fc', [joint_pt_of []] @ new)"
       "1 \<le> fc'"
    by blast
  have "extractSeedCartesianTrajectory env req seed
          = Returned (seed\<lparr>points := joint_pt_of [] # new,
                           joint_names := ActiveJointModelNames env\<rparr>, fc')"
    using req len ps os f h(1) fresh by (simp add: extractSeedCartesianTrajectory_def)
  then show ?thesis using h(2) dof by (simp add: joint_pt_of_def)
qed

theorem cartesian_seed_first_failure_witness:
  "\<exists>seed' fail_count.
     extractSeedCartesianTrajectory example_env first_failure_request empty_trajectory
       = Returned (seed', fail_count) \<and>
     points seed' \<noteq> [] \<and> positions (hd (points seed')) = [] \<and> 1 \<le> fail_count \<and>
     \<not> list_all (\<lambda>pt. length (positions pt) = 2) (points seed')"
proof -
  let ?c = "cartesian_waypoints [(1, 2, -1), (1, 1, 1), (2, 2, 1)]"
  have r: "trajectory_constraints first_failure_request = [?c]"
    by (simp add: first_failure_request_def example_request_def)
  have l: "length (position_constraints ?c) = length (orientation_constraints ?c)"
    by (simp add: cartesian_waypoints_def)
  have ne: "position_constraints ?c \<noteq> []" by (simp add: cartesian_waypoints_def)
  have fl: "ikFromCartesianConstraints example_env (hd (position_constraints ?c))
              (hd (orientation_constraints ?c)) [] = Failed IKFailed"
    by (simp add: ikFromCartesianConstraints_def cartesian_waypoints_def example_env_def
        example_CartToJnt_def)
  have d: "ActiveJointModelNames example_env \<noteq> []" by (simp add: example_env_def)
  have f: "points empty_trajectory = []" by (simp add: empty_trajectory_def)
  have two: "length (ActiveJointModelNames example_env) = 2" by (simp add: example_env_def)
  from cartesian_seed_first_failure [OF r l ne fl d f] show ?thesis
    unfolding two .
qed

section \<open>Seed repair\<close>

text \<open>Rounding: a power of two in the range of the doubles is a double.\<close>

lemma round_half_even_of_int: "round_half_even (of_int m) = m"
  by (simp add: round_half_even_def)

lemma ieee_round_binade:
  assumes "2 powi e \<le> \<bar>x\<bar>" and "\<bar>x\<bar> < 2 powi (e + 1)" and "- 1022 \<le> e"
  shows "ieee_round x =
           (let ulp = 2 powi (e - 52); r = of_int (round_half_even (x / ulp)) * ulp
            in if \<bar>r\<bar> < 2 powi 1024 then Some r else None)"
proof -
  have "0 < (2::real) powi e" by simp
  with assms(1) have pos: "0 < \<bar>x\<bar>" by linarith
  then have nz: "x \<noteq> 0" by auto
  have p1: "(2::real) powr real_of_int e = 2 powi e"
    by (simp add: powr_real_of_int')
  have p2: "(2::real) powr (real_of_int e + 1) = 2 powi (e + 1)"
    using powr_real_of_int' [of 2 "e + 1"] by simp
  have "\<lfloor>log 2 \<bar>x\<bar>\<rfloor> = e"
    using floor_log_eq_powr_iff [of "\<bar>x\<bar>" 2 e] pos assms(1,2) p1 p2 by simp
  then show ?thesis using nz assms(3) by (simp add: ieee_round_def Let_def max_def)
qed

lemma ieee_round_power_of_two:
  assumes "- 1022 \<le> e" and "e < 1024"
  shows "ieee_round (2 powi e) = Some (2 powi e)"
proof -
  have a: "(2::real) powi e \<le> \<bar>2 powi e\<bar>" by simp
  have b: "\<bar>(2::real) powi e\<bar> < 2 powi (e + 1)"
    by (simp add: power_int_add)
  have d: "(2::real) powi e / 2 powi (e - 52) = of_int (2 ^ 52)"
    by (simp add: power_int_diff)
  have m: "of_int (2 ^ 52) * (2::real) powi (e - 52) = 2 powi e"
    by (simp add: power_int_diff)
  have "(2::real) powi e < 2 powi 1024"
    by (rule power_int_strict_increasing) (use assms(2) in simp_all)
  moreover have "\<bar>(2::real) powi e\<bar> = 2 powi e" by simp
  ultimately have lt: "\<bar>(2::real) powi e\<bar> < 2 powi 1024" by (simp only:)
  show ?thesis
    unfolding ieee_round_binade [OF a b assms(1)] Let_def d round_half_even_of_int m
    using lt by (simp only: if_True)
qed

lemma ieee_round_half_plus: "ieee_round (1 / 2 + 1 / 2 ^ 60) = Some (1 / 2)"
proof -
  have a: "(2::real) powi (- 1) \<le> \<bar>1 / 2 + 1 / 2 ^ 60\<bar>" by (simp add: power_int_minus)
  have b: "\<bar>1 / 2 + 1 / 2 ^ 60 :: real\<bar> < 2 powi (- 1 + 1)" by simp
  have q: "((1 / 2 + 1 / 2 ^ 60) / 2 powi (- 1 - 52) :: real) = 2 ^ 52 + 1 / 128"
    by (simp add: power_int_minus field_simps)
  have f: "\<lfloor>2 ^ 52 + 1 / 128 :: real\<rfloor> = 2 ^ 52"
    by (simp add: floor_eq_iff)
  have r: "round_half_even (2 ^ 52 + 1 / 128) = 2 ^ 52"
    unfolding round_half_even_def Let_def f by simp
  have c: "- 1022 \<le> (- 1 :: int)" by simp
  have "(2::real) powi (- 1) < 2 powi 1024"
    by (rule power_int_strict_increasing) simp_all
  then have lt: "\<bar>of_int (2 ^ 52) * (2::real) powi (- 1 - 52)\<bar> < 2 powi 1024"
    by (simp add: power_int_minus)
  have v: "of_int (2 ^ 52) * (2::real) powi (- 1 - 52) = 1 / 2"
    by (simp add: power_int_minus)
  show ?thesis
    unfolding ieee_round_binade [OF a b c] Let_def q r
    using lt unfolding v by (simp only: if_True)
qed

lemma ieee_round_values:
  "ieee_round 0 = Some 0" "ieee_round 1 = Some 1" "ieee_round (1 / 2) = Some (1 / 2)"
  "ieee_round (1 / 2 ^ 60) = Some (1 / 2 ^ 60)"
proof -
  show "ieee_round 0 = Some 0" by (simp add: ieee_round_def)
  show "ieee_round 1 = Some 1" using ieee_round_power_of_two [of 0] by simp
  show "ieee_round (1 / 2) = Some (1 / 2)"
    using ieee_round_power_of_two [of "- 1"] by (simp add: power_int_minus field_simps)
  show "ieee_round (1 / 2 ^ 60) = Some (1 / 2 ^ 60)"
    using ieee_round_power_of_two [of "- 60"] by (simp add: power_int_minus field_simps)
qed

lemma ieee_round_values_numeral:
  "ieee_round (1 / 1152921504606846976) = Some (1 / 1152921504606846976)"
  "ieee_round (576460752303423489 / 1152921504606846976) = Some (1 / 2)"
  using ieee_round_values(4) ieee_round_half_plus by simp_all

lemma ieee_sum_from_zeros: "ieee_sum_from 0 (replicate n 0) = Some 0"
  by (induction n) (simp_all add: ieee_round_values)

lemma ieee_sum_zeros: "ieee_sum (replicate n 0) = Some 0"
  by (cases n) (simp_all add: ieee_sum_from_zeros)

text \<open>
  The distance of \<open>rounding_matrix\<close> from the start, as the doubles give it and as the
  real numbers give it.
\<close>

lemma rounding_distance:
  "l1_distance ieee_env [1 / 2, 1 / 2 ^ 60] [0, 0] = Some (1 / 2)"
  by (simp add: l1_distance_def ieee_env_def ieee_round_values ieee_round_values_numeral)

lemma rounding_exact_distance:
  "exact_l1_distance [1 / 2, 1 / 2 ^ 60] [0, 0] = 1 / 2 + 1 / 2 ^ 60"
  by (simp add: exact_l1_distance_def)

lemma far_distance: "l1_distance ieee_env [1, 0] [0, 0] = Some 1"
  by (simp add: l1_distance_def ieee_env_def ieee_round_values)

lemma zero_distance: "l1_distance ieee_env [1, 1] [1, 1] = Some 0"
  by (simp add: l1_distance_def ieee_env_def ieee_round_values)

lemma abs_differences_self:
  "\<forall>x. double_sub env x x = Some 0 \<Longrightarrow>
   abs_differences env a a = Some (replicate (length a) 0)"
  by (induction a) simp_all

lemma l1_distance_self:
  "\<forall>x. double_sub env x x = Some 0 \<Longrightarrow> \<forall>m. double_sum env (replicate m 0) = Some 0 \<Longrightarrow>
   l1_distance env a a = Some 0"
  by (simp add: l1_distance_def abs_differences_self)

text \<open>The snap of the last column leaves the first column of a matrix of two or more columns.\<close>

lemma seed_goal_snap_first_column:
  assumes "2 \<le> cols m" and "seed_goal_snap env req m st = Returned p2"
  shows "hd (mat_columns p2) = hd (mat_columns m)"
proof -
  obtain c0 c1 rest where cs: "mat_columns m = c0 # c1 # rest"
    using assms(1) by (cases "mat_columns m"; cases "tl (mat_columns m)") (auto simp: cols_def)
  from assms(2) obtain goal where "p2 = m\<lparr>mat_columns := (mat_columns m)[cols m - 1 := goal]\<rparr>"
    by (auto simp: seed_goal_snap_def split: outcome.splits option.splits bool.splits)
  then show ?thesis using cs by (simp add: cols_def)
qed

text \<open>
  The matrix that \<^verbatim>\<open>getSeedParameters\<close> repairs has one row for each active joint
  of the group and one column for each point of the extracted seed.
\<close>

lemma extractSeedTrajectory_names:
  "extractSeedTrajectory env req seed = Returned traj \<Longrightarrow>
   joint_names traj = ActiveJointModelNames env"
  by (auto simp: extractSeedTrajectory_def extractSeedJointTrajectory_def
      extractSeedCartesianTrajectory_def Let_def
      split: if_splits outcome.splits bool.splits list.splits)

lemma seed_matrix_well_formed:
  assumes "extractSeedTrajectory env req seed = Returned traj"
    and "jointTrajectorytoParameters traj = Returned parameters"
  shows "mat_rows parameters = length (ActiveJointModelNames env) \<and>
         list_all (\<lambda>c. length c = mat_rows parameters) (mat_columns parameters) \<and>
         cols parameters = length (points traj)"
proof -
  have n: "joint_names traj = ActiveJointModelNames env"
    using assms(1) by (rule extractSeedTrajectory_names)
  from assms(2) have p: "parameters = \<lparr>mat_rows = length (joint_names traj),
        mat_columns = map (\<lambda>pt. take (length (joint_names traj)) (positions pt)) (points traj)\<rparr>"
    and a: "list_all (\<lambda>pt. length (joint_names traj) \<le> length (positions pt)) (points traj)"
    by (auto simp: jointTrajectorytoParameters_def Let_def split: if_splits)
  from a have "list_all (\<lambda>c. length c = length (joint_names traj))
                 (map (\<lambda>pt. take (length (joint_names traj)) (positions pt)) (points traj))"
    by (simp add: list_all_iff)
  with p n show ?thesis by (simp add: cols_def)
qed

lemma getSeedParameters_repair:
  "extractSeedTrajectory env req empty_trajectory = Returned traj \<Longrightarrow>
   jointTrajectorytoParameters traj = Returned parameters \<Longrightarrow>
   getSeedParameters env req = repair_seed env req parameters"
  by (simp add: getSeedParameters_def)

text \<open>
  Claim C3, with the distance as the source computes it. Let the seed matrix have at
  least three columns, each with one row for each active joint, and let the start state
  of the request convert to a robot state, whose values of the active joints are the
  start configuration. The distance is the rounded sum of the absolute values of the
  rounded differences between the first column and the start configuration (in an
  arithmetic where the difference of a double and itself is 0 and a sum of zeros is 0,
  as with IEEE doubles). If this distance is at most 0.5, the snap returns the matrix
  with its first column overwritten by the start configuration, the snap of that matrix
  returns the same matrix again, the repair goes on with the snapped matrix (it is the
  repair of the snapped matrix), and a matrix that the repair returns is the smoothing
  of a matrix whose first column is the start configuration. If the distance is above
  0.5 or infinite, the snap fails with \<open>SeedStartMismatch\<close>, and so does the whole
  repair: no matrix is returned.
\<close>

theorem seed_start_snap_or_fail:
  assumes cols3: "3 \<le> cols parameters"
    and rows: "mat_rows parameters = length (ActiveJointModelNames env)"
    and wf: "list_all (\<lambda>c. length c = mat_rows parameters) (mat_columns parameters)"
    and st: "robotStateMsgToRobotState env (start_state req) (default_state env) = Some st"
    and start: "start = map st (ActiveJointModelNames env)"
    and snapped: "snapped = parameters\<lparr>mat_columns := (mat_columns parameters)[0 := start]\<rparr>"
    and sub_self: "\<forall>x. double_sub env x x = Some 0"
    and sum_zeros: "\<forall>m. double_sum env (replicate m 0) = Some 0"
  shows "if (case l1_distance env (hd (mat_columns parameters)) start of
               Some d \<Rightarrow> d \<le> 1 / 2
             | None \<Rightarrow> False)
         then seed_start_snap env req parameters = Returned (snapped, enforceBounds env st) \<and>
              hd (mat_columns snapped) = start \<and>
              seed_start_snap env req snapped = Returned (snapped, enforceBounds env st) \<and>
              repair_seed env req parameters =
                (case seed_goal_snap env req snapped (enforceBounds env st) of
                   Returned p2 \<Rightarrow>
                     (case applyPolynomialSmoothing env p2 of
                        Some p3 \<Rightarrow> Returned p3
                      | None \<Rightarrow> Failed SmoothingFailed)
                 | Failed f \<Rightarrow> Failed f
                 | Undefined u \<Rightarrow> Undefined u) \<and>
              repair_seed env req snapped = repair_seed env req parameters \<and>
              (case repair_seed env req parameters of
                 Returned repaired \<Rightarrow>
                   (\<exists>p2. applyPolynomialSmoothing env p2 = Some repaired \<and>
                         hd (mat_columns p2) = start)
               | Failed f \<Rightarrow> True
               | Undefined u \<Rightarrow> True)
         else seed_start_snap env req parameters = Failed SeedStartMismatch \<and>
              repair_seed env req parameters = Failed SeedStartMismatch"
proof -
  let ?close = "case l1_distance env (hd (mat_columns parameters)) start of
                  Some d \<Rightarrow> d \<le> 1 / 2 | None \<Rightarrow> False"
  let ?st = "enforceBounds env st"
  obtain c0 rest where cs: "mat_columns parameters = c0 # rest"
    using cols3 by (cases "mat_columns parameters") (auto simp: cols_def)
  have len: "length c0 = length start" using wf rows cs start by simp
  have hd_snapped: "hd (mat_columns snapped) = start" using snapped cs by simp
  have cols_snapped: "cols snapped = cols parameters" using snapped by (simp add: cols_def)
  have again: "snapped\<lparr>mat_columns := (mat_columns snapped)[0 := start]\<rparr> = snapped"
    using snapped cs by simp
  show ?thesis
  proof (cases ?close)
    case True
    have first: "seed_start_snap env req parameters = Returned (snapped, ?st)"
      using True st start snapped cs len
      by (simp add: seed_start_snap_def within_tolerance_def MAX_START_DISTANCE_THRESH_def)
    have "l1_distance env start start = Some 0"
      using sub_self sum_zeros by (rule l1_distance_self)
    then have second: "seed_start_snap env req snapped = Returned (snapped, ?st)"
      using st start hd_snapped again
      by (simp add: seed_start_snap_def within_tolerance_def MAX_START_DISTANCE_THRESH_def)
    have rep: "repair_seed env req parameters =
                (case seed_goal_snap env req snapped ?st of
                   Returned p2 \<Rightarrow>
                     (case applyPolynomialSmoothing env p2 of
                        Some p3 \<Rightarrow> Returned p3
                      | None \<Rightarrow> Failed SmoothingFailed)
                 | Failed f \<Rightarrow> Failed f
                 | Undefined u \<Rightarrow> Undefined u)"
      using cols3 first by (simp add: repair_seed_def)
    have rep2: "repair_seed env req snapped = repair_seed env req parameters"
      unfolding rep using cols3 cols_snapped second by (simp add: repair_seed_def)
    have out: "case repair_seed env req parameters of
                 Returned repaired \<Rightarrow>
                   (\<exists>p2. applyPolynomialSmoothing env p2 = Some repaired \<and>
                         hd (mat_columns p2) = start)
               | Failed f \<Rightarrow> True
               | Undefined u \<Rightarrow> True"
    proof (cases "seed_goal_snap env req snapped ?st")
      case (Returned p2)
      have "2 \<le> cols snapped" using cols3 cols_snapped by simp
      from seed_goal_snap_first_column [OF this Returned] hd_snapped
      have "hd (mat_columns p2) = start" by simp
      with Returned show ?thesis unfolding rep by (auto split: option.splits)
    qed (simp_all add: rep)
    from True first hd_snapped second rep rep2 out show ?thesis by (simp only: if_True simp_thms)
  next
    case False
    have first: "seed_start_snap env req parameters = Failed SeedStartMismatch"
      using False st start cs len
      by (simp add: seed_start_snap_def within_tolerance_def MAX_START_DISTANCE_THRESH_def)
    then have "repair_seed env req parameters = Failed SeedStartMismatch"
      using cols3 by (simp add: repair_seed_def)
    with False first show ?thesis by (simp only: if_False simp_thms)
  qed
qed

text \<open>The example request starts at \<open>(0, 0)\<close>, and its goal is the last column of the seeds.\<close>

lemma rounding_start_state:
  "robotStateMsgToRobotState ieee_env (start_state rounding_request) (default_state ieee_env)
     = Some zero_state"
  "map zero_state (ActiveJointModelNames ieee_env) = [0, 0]"
  "enforceBounds ieee_env zero_state = zero_state"
  by (auto simp: ieee_env_def rounding_request_def zero_state_def example_defs)

lemma rounding_goal_snap:
  "seed_goal_snap ieee_env rounding_request snapped_matrix st = Returned snapped_matrix"
proof -
  have g: "goal_loop ieee_env (satisfiesBounds_group ieee_env) (goal_constraints rounding_request) st
             = Returned (Some [1, 1])"
    by (simp add: ieee_env_def rounding_request_def example_defs)
  have l: "last (mat_columns snapped_matrix) = [1, 1]" by (simp add: snapped_matrix_def)
  have w: "within_tolerance ieee_env [1, 1] [1, 1] MAX_START_DISTANCE_THRESH = Returned True"
    by (simp add: within_tolerance_def zero_distance MAX_START_DISTANCE_THRESH_def)
  show ?thesis
    unfolding seed_goal_snap_def g l by (simp add: w) (simp add: snapped_matrix_def cols_def)
qed

lemma ieee_smoothing: "applyPolynomialSmoothing ieee_env m = Some m"
  by (simp add: ieee_env_def example_env_def)

theorem seed_start_snap_or_fail_witness:
  "seed_start_snap ieee_env rounding_request rounding_matrix
     = Returned (snapped_matrix, zero_state) \<and>
   seed_start_snap ieee_env rounding_request snapped_matrix
     = Returned (snapped_matrix, zero_state) \<and>
   repair_seed ieee_env rounding_request rounding_matrix = Returned snapped_matrix \<and>
   repair_seed ieee_env rounding_request snapped_matrix = Returned snapped_matrix \<and>
   seed_start_snap ieee_env rounding_request far_matrix = Failed SeedStartMismatch \<and>
   repair_seed ieee_env rounding_request far_matrix = Failed SeedStartMismatch"
proof -
  note st = rounding_start_state(1)
  have start: "[0, 0] = map zero_state (ActiveJointModelNames ieee_env)"
    by (simp add: rounding_start_state(2))
  note same = rounding_start_state(3)
  have names: "length (ActiveJointModelNames ieee_env) = 2"
    by (simp add: ieee_env_def example_env_def)
  have sub: "\<forall>x. double_sub ieee_env x x = Some 0"
    by (simp add: ieee_env_def ieee_round_values)
  have sum: "\<forall>m. double_sum ieee_env (replicate m 0) = Some 0"
    by (simp add: ieee_env_def ieee_sum_zeros)
  have c1: "3 \<le> cols rounding_matrix" by (simp add: cols_def rounding_matrix_def)
  have r1: "mat_rows rounding_matrix = length (ActiveJointModelNames ieee_env)"
    by (simp add: rounding_matrix_def names)
  have w1: "list_all (\<lambda>c. length c = mat_rows rounding_matrix) (mat_columns rounding_matrix)"
    by (simp add: rounding_matrix_def)
  have s1: "snapped_matrix = rounding_matrix\<lparr>mat_columns := (mat_columns rounding_matrix)[0 := [0, 0]]\<rparr>"
    by (simp add: snapped_matrix_def rounding_matrix_def)
  have d1: "l1_distance ieee_env (hd (mat_columns rounding_matrix)) [0, 0] = Some (1 / 2)"
    by (simp only: rounding_matrix_def MatrixXd.simps list.sel rounding_distance)
  from seed_start_snap_or_fail [OF c1 r1 w1 st start s1 sub sum]
  have one: "seed_start_snap ieee_env rounding_request rounding_matrix
        = Returned (snapped_matrix, zero_state) \<and>
      seed_start_snap ieee_env rounding_request snapped_matrix
        = Returned (snapped_matrix, zero_state) \<and>
      repair_seed ieee_env rounding_request rounding_matrix = Returned snapped_matrix \<and>
      repair_seed ieee_env rounding_request snapped_matrix = Returned snapped_matrix"
    unfolding d1 same by (simp add: rounding_goal_snap ieee_smoothing)
  have c2: "3 \<le> cols far_matrix" by (simp add: cols_def far_matrix_def)
  have r2: "mat_rows far_matrix = length (ActiveJointModelNames ieee_env)"
    by (simp add: far_matrix_def names)
  have w2: "list_all (\<lambda>c. length c = mat_rows far_matrix) (mat_columns far_matrix)"
    by (simp add: far_matrix_def)
  have d2: "l1_distance ieee_env (hd (mat_columns far_matrix)) [0, 0] = Some 1"
    by (simp only: far_matrix_def MatrixXd.simps list.sel far_distance)
  from seed_start_snap_or_fail [OF c2 r2 w2 st start refl sub sum]
  have two: "seed_start_snap ieee_env rounding_request far_matrix = Failed SeedStartMismatch \<and>
      repair_seed ieee_env rounding_request far_matrix = Failed SeedStartMismatch"
    unfolding d2 by simp
  from one two show ?thesis by blast
qed

lemma rounding_start_snap:
  "seed_start_snap ieee_env rounding_request rounding_matrix = Returned (snapped_matrix, zero_state)"
proof -
  have w: "within_tolerance ieee_env [1 / 2, 1 / 2 ^ 60] [0, 0] MAX_START_DISTANCE_THRESH
             = Returned True"
    by (simp only: within_tolerance_def rounding_distance MAX_START_DISTANCE_THRESH_def) simp
  have h: "hd (mat_columns rounding_matrix) = [1 / 2, 1 / 2 ^ 60]"
    by (simp only: rounding_matrix_def MatrixXd.simps list.sel)
  have u: "rounding_matrix\<lparr>mat_columns := (mat_columns rounding_matrix)[0 := [0, 0]]\<rparr>
             = snapped_matrix"
    by (simp add: snapped_matrix_def rounding_matrix_def)
  show ?thesis
    unfolding seed_start_snap_def rounding_start_state(1) option.case Let_def
      rounding_start_state(2) h w
    by (simp add: u rounding_start_state(3))
qed

text \<open>
  Claim C3 as it is stated, with the distance of the specification, does not hold. With
  the arithmetic of doubles, for the start \<open>(0, 0)\<close> and the first column
  \<open>(1 / 2, 1 / 2 ^ 60)\<close>, the sum of the absolute differences is above 0.5, and yet
  the first column is snapped and the repair returns a matrix: the sum that the doubles
  give is \<open>1 / 2\<close>.
\<close>

theorem exact_distance_counterexample:
  "robotStateMsgToRobotState ieee_env (start_state rounding_request) (default_state ieee_env)
     = Some zero_state \<and>
   1 / 2 < exact_l1_distance (hd (mat_columns rounding_matrix))
             (map zero_state (ActiveJointModelNames ieee_env)) \<and>
   l1_distance ieee_env (hd (mat_columns rounding_matrix))
     (map zero_state (ActiveJointModelNames ieee_env)) = Some (1 / 2) \<and>
   seed_start_snap ieee_env rounding_request rounding_matrix
     = Returned (snapped_matrix, zero_state) \<and>
   repair_seed ieee_env rounding_request rounding_matrix = Returned snapped_matrix"
proof -
  have h: "hd (mat_columns rounding_matrix) = [1 / 2, 1 / 2 ^ 60]"
    by (simp only: rounding_matrix_def MatrixXd.simps list.sel)
  have far: "1 / 2 < exact_l1_distance (hd (mat_columns rounding_matrix))
                       (map zero_state (ActiveJointModelNames ieee_env))"
    unfolding h rounding_start_state(2) rounding_exact_distance by simp
  have near: "l1_distance ieee_env (hd (mat_columns rounding_matrix))
                (map zero_state (ActiveJointModelNames ieee_env)) = Some (1 / 2)"
    unfolding h rounding_start_state(2) by (rule rounding_distance)
  have c: "\<not> cols rounding_matrix \<le> 2" by (simp add: cols_def rounding_matrix_def)
  have "repair_seed ieee_env rounding_request rounding_matrix = Returned snapped_matrix"
    unfolding repair_seed_def using c
    by (simp add: rounding_start_snap rounding_goal_snap ieee_smoothing)
  with rounding_start_state(1) far near rounding_start_snap show ?thesis by blast
qed




section \<open>Where the source does not do what is claimed\<close>

text \<open>
  Claim C2 says that the classifier fails with \<open>AmbiguousSeedType\<close> when the trajectory
  constraints match neither shape. In the source the first constraint set decides. When
  it has no joint constraints and lacks position or orientation constraints,
  \<^verbatim>\<open>isCartesianSeed\<close> reaches the end of its body without a \<^verbatim>\<open>return\<close>: no value
  is defined, in the classifier and in both of its callers.
\<close>

theorem isCartesianSeed_falls_through:
  assumes "trajectory_constraints req = c # cs"
    and "joint_constraints c = []"
    and "position_constraints c = [] \<or> orientation_constraints c = []"
  shows "isCartesianSeed req = Undefined NoReturnValue \<and>
         extractSeedTrajectory env req seed = Undefined NoReturnValue \<and>
         getStartAndGoal env req = Undefined NoReturnValue"
  using assms
  by (auto simp: isCartesianSeed_def extractSeedTrajectory_def getStartAndGoal_def)

theorem isCartesianSeed_falls_through_witness:
  "isCartesianSeed position_only_request = Undefined NoReturnValue \<and>
   extractSeedTrajectory example_env position_only_request empty_trajectory
     = Undefined NoReturnValue \<and>
   getStartAndGoal example_env position_only_request = Undefined NoReturnValue"
proof -
  let ?c = "\<lparr>joint_constraints = [],
             position_constraints = [\<lparr>target_point_offset = (1, 2, 1)\<rparr>],
             orientation_constraints = []\<rparr>"
  have a: "trajectory_constraints position_only_request = ?c # []"
    by (simp add: position_only_request_def example_request_def)
  have b: "joint_constraints ?c = []" by simp
  have c: "position_constraints ?c = [] \<or> orientation_constraints ?c = []" by simp
  from isCartesianSeed_falls_through [OF a b c] show ?thesis .
qed

text \<open>The classification of a first constraint set that has one of the two shapes.\<close>

lemma isCartesianSeed_joint:
  "trajectory_constraints req = c # cs \<Longrightarrow> joint_constraints c \<noteq> [] \<Longrightarrow>
   isCartesianSeed req = Returned False"
  by (simp add: isCartesianSeed_def)

lemma isCartesianSeed_cartesian:
  "trajectory_constraints req = c # cs \<Longrightarrow> joint_constraints c = [] \<Longrightarrow>
   position_constraints c \<noteq> [] \<Longrightarrow> orientation_constraints c \<noteq> [] \<Longrightarrow>
   isCartesianSeed req = Returned True"
  by (simp add: isCartesianSeed_def)

text \<open>A solve with the empty hint is a solve started from the zero vector.\<close>

lemma ik_empty_hint_is_zero_hint:
  "getKDLChain env = Some n \<Longrightarrow> 0 < n \<Longrightarrow>
   ikFromCartesianConstraints env p oc [] = ikFromCartesianConstraints env p oc (replicate n 0)"
  by (simp add: ikFromCartesianConstraints_def ik_nominal_def)

lemma echo_loop:
  "cartesian_seed_loop echo_env
     (position_constraints (cartesian_waypoints [(1, 2, 1), (1, 1, -1), (2, 2, 1)]))
     (orientation_constraints (cartesian_waypoints [(1, 2, 1), (1, 1, -1), (2, 2, 1)])) [] 0 []
   = Returned ([0, 0], 0, [joint_pt_of [0, 0], joint_pt_of [0, 0], joint_pt_of [0, 0]])"
  by (simp add: ikFromCartesianConstraints_def ik_nominal_def echo_env_def example_env_def
      cartesian_waypoints_def numeral_2_eq_2)

text \<open>
  Claim C6 says that the first waypoint is solved from a configuration midway between
  all joint limits. In the source the first solve starts from the zero vector, whatever
  the limits are: with a solver that answers with the configuration it was started from,
  the seed extracted from three waypoints is three times \<open>[0, 0]\<close>, while the
  configuration midway between the limits \<open>[1, 1]\<close> and \<open>[3, 5]\<close> is \<open>[2, 3]\<close>.
\<close>

theorem first_hint_is_zero_vector:
  "extractSeedCartesianTrajectory echo_env interior_failure_request empty_trajectory
     = Returned (\<lparr>joint_names = [''x'', ''y''],
                  points = [joint_pt_of [0, 0], joint_pt_of [0, 0], joint_pt_of [0, 0]]\<rparr>, 0) \<and>
   ik_nominal 2 [] = [0, 0] \<and>
   midrange_hint [1, 1] [3, 5] = [2, 3]"
proof -
  have "extractSeedCartesianTrajectory echo_env interior_failure_request empty_trajectory
     = Returned (\<lparr>joint_names = [''x'', ''y''],
                  points = [joint_pt_of [0, 0], joint_pt_of [0, 0], joint_pt_of [0, 0]]\<rparr>, 0)"
    unfolding extractSeedCartesianTrajectory_def interior_failure_request_def example_request_def
    by (simp add: echo_loop empty_trajectory_def)
      (simp add: echo_env_def example_env_def cartesian_waypoints_def)
  moreover have "ik_nominal 2 [] = [0, 0]" by (simp add: ik_nominal_def numeral_2_eq_2)
  moreover have "midrange_hint [1, 1] [3, 5] = [2, 3]" by (simp add: midrange_hint_def)
  ultimately show ?thesis by simp
qed

text \<open>
  Claim C7 says that, when both solves succeed, the resolved start is written into the
  start state of the request and the goal constraints become joint constraints built
  from the resolved goal. In the source \<^verbatim>\<open>robotStateFromEigen\<close> and
  \<^verbatim>\<open>jointConstraintsFromEigen\<close> are unfinished: with assertions the call stops at
  \<^verbatim>\<open>assert(false)\<close>, without them the start state of the request becomes an empty
  message and its goal constraints one empty constraint set.
\<close>

theorem resolved_start_goal_not_written_back:
  assumes "isCartesianSeed req = Returned True"
    and "c = hd (trajectory_constraints req)"
    and "ikFromCartesianConstraints env (hd (position_constraints c))
           (hd (orientation_constraints c)) (default_hint env) = Returned start"
    and "ikFromCartesianConstraints env (last (position_constraints c))
           (last (orientation_constraints c)) (default_hint env) = Returned goal"
  shows "getStartAndGoal env req =
           (if NDEBUG env
            then Returned (start, goal,
                   req\<lparr>start_state := \<lparr>joint_state_name = [], joint_state_position = []\<rparr>,
                       goal_constraints := [\<lparr>joint_constraints = [], position_constraints = [],
                                              orientation_constraints = []\<rparr>]\<rparr>)
            else Undefined AssertionAbort)"
  using assms
  by (simp add: getStartAndGoal_def cartesian_start_and_goal_def robotStateFromEigen_def
      jointConstraintsFromEigen_def Let_def)

theorem resolved_start_goal_not_written_back_witness:
  "getStartAndGoal example_env interior_failure_request = Undefined AssertionAbort \<and>
   getStartAndGoal (example_env\<lparr>NDEBUG := True\<rparr>) interior_failure_request
     = Returned ([1, 2], [2, 2],
         interior_failure_request
           \<lparr>start_state := \<lparr>joint_state_name = [], joint_state_position = []\<rparr>,
            goal_constraints := [\<lparr>joint_constraints = [], position_constraints = [],
                                   orientation_constraints = []\<rparr>]\<rparr>)"
proof -
  let ?c = "cartesian_waypoints [(1, 2, 1), (1, 1, -1), (2, 2, 1)]"
  have cart: "isCartesianSeed interior_failure_request = Returned True"
    by (simp add: isCartesianSeed_def interior_failure_request_def example_request_def
        cartesian_waypoints_def)
  have c: "?c = hd (trajectory_constraints interior_failure_request)"
    by (simp add: interior_failure_request_def example_request_def)
  have s1: "ikFromCartesianConstraints example_env (hd (position_constraints ?c))
             (hd (orientation_constraints ?c)) (default_hint example_env) = Returned [1, 2]"
    by (simp add: ikFromCartesianConstraints_def cartesian_waypoints_def example_env_def
        example_CartToJnt_def)
  have g1: "ikFromCartesianConstraints example_env (last (position_constraints ?c))
             (last (orientation_constraints ?c)) (default_hint example_env) = Returned [2, 2]"
    by (simp add: ikFromCartesianConstraints_def cartesian_waypoints_def example_env_def
        example_CartToJnt_def)
  let ?env = "example_env\<lparr>NDEBUG := True\<rparr>"
  have s2: "ikFromCartesianConstraints ?env (hd (position_constraints ?c))
             (hd (orientation_constraints ?c)) (default_hint ?env) = Returned [1, 2]"
    by (simp add: ikFromCartesianConstraints_def cartesian_waypoints_def example_env_def
        example_CartToJnt_def)
  have g2: "ikFromCartesianConstraints ?env (last (position_constraints ?c))
             (last (orientation_constraints ?c)) (default_hint ?env) = Returned [2, 2]"
    by (simp add: ikFromCartesianConstraints_def cartesian_waypoints_def example_env_def
        example_CartToJnt_def)
  have n1: "\<not> NDEBUG example_env" by (simp add: example_env_def)
  have n2: "NDEBUG ?env" by simp
  from resolved_start_goal_not_written_back [OF cart c s1 g1] n1
  have one: "getStartAndGoal example_env interior_failure_request = Undefined AssertionAbort"
    by simp
  from resolved_start_goal_not_written_back [OF cart c s2 g2] n2
  have two: "getStartAndGoal ?env interior_failure_request
     = Returned ([1, 2], [2, 2],
         interior_failure_request
           \<lparr>start_state := \<lparr>joint_state_name = [], joint_state_position = []\<rparr>,
            goal_constraints := [\<lparr>joint_constraints = [], position_constraints = [],
                                   orientation_constraints = []\<rparr>]\<rparr>)"
    by simp
  from one two show ?thesis by simp
qed

text \<open>
  Claim C8 says that a request without seed, with a valid start and a joint goal within
  bounds, is planned successfully. In the source such a session has no defined result:
  without trajectory constraints \<^verbatim>\<open>getSeedParameters\<close> finds no seed, and
  \<^verbatim>\<open>getStartAndGoal\<close> then calls \<^verbatim>\<open>isCartesianSeed\<close>, which reads
  \<^verbatim>\<open>constraints[0]\<close> of the empty vector.
\<close>

theorem unseeded_session_undefined:
  assumes "trajectory_constraints req = []"
  shows "solve env req = Undefined OutOfRangeAccess"
  using assms
  by (simp add: solve_def getSeedParameters_def extractSeedTrajectory_def getStartAndGoal_def
      isCartesianSeed_def)

theorem unseeded_session_undefined_witness:
  "trajectory_constraints unseeded_request = [] \<and>
   joint_start_and_goal example_env unseeded_request = Returned ([0, 0], [1, 1], unseeded_request) \<and>
   solve example_env unseeded_request = Undefined OutOfRangeAccess"
proof -
  have e: "trajectory_constraints unseeded_request = []"
    by (simp add: unseeded_request_def example_request_def)
  have j: "joint_start_and_goal example_env unseeded_request
             = Returned ([0, 0], [1, 1], unseeded_request)"
    by (simp add: joint_start_and_goal_def unseeded_request_def example_defs)
  from unseeded_session_undefined [OF e, of example_env] e j show ?thesis by simp
qed

lemma handle_results_attached:
  "handle_results env req initial_response calls pr = Returned r \<Longrightarrow>
   res_trajectory (response r) = [Some t] \<Longrightarrow> has_planning_scene env \<Longrightarrow>
   \<not> isPathValid env t \<Longrightarrow>
   returned r \<and> res_error_code (response r) = PLANNING_FAILED"
  by (auto simp: handle_results_def initial_response_def Let_def
      split: option.splits outcome.splits if_splits)

lemma initial_response_trajectory: "res_trajectory initial_response = [None]"
  by (simp add: initial_response_def)

lemma colliding_seed:
  "getSeedParameters example_env colliding_request
     = Returned \<lparr>mat_rows = 2, mat_columns = [[1 / 10, 0], [2, 1 / 2], [1, 4 / 5]]\<rparr>"
  by (simp add: getSeedParameters_def extractSeedTrajectory_def isCartesianSeed_def
      extractSeedJointTrajectory_def jointTrajectorytoParameters_def repair_seed_def
      seed_start_snap_def seed_goal_snap_def within_tolerance_def l1_distance_def
      MAX_START_DISTANCE_THRESH_def empty_trajectory_def cols_def colliding_request_def
      example_defs)

text \<open>
  Claim C1 says that a session whose trajectory fails the check against the planning
  scene reports failure, keeps the trajectory in the response and returns
  \<^verbatim>\<open>false\<close>. In the source, whenever \<open>solve\<close> has attached a trajectory to the
  response and the planning scene finds this trajectory invalid, the error code is
  \<open>PLANNING_FAILED\<close> and the value returned is \<^verbatim>\<open>true\<close>.
\<close>

theorem collision_still_returns_true:
  assumes "solve env req = Returned r"
    and "res_trajectory (response r) = [Some t]"
    and "has_planning_scene env"
    and "\<not> isPathValid env t"
  shows "returned r \<and> res_error_code (response r) = PLANNING_FAILED"
proof (cases "getSeedParameters env req")
  case (Returned p)
  with assms(1) show ?thesis
    using assms(2-4)
    by (auto simp: solve_def Let_def initial_response_trajectory split: if_splits
        dest: handle_results_attached)
next
  case (Failed f)
  with assms(1) show ?thesis
    using assms(2-4)
    by (auto simp: solve_def Let_def initial_response_trajectory
        split: if_splits outcome.splits dest: handle_results_attached)
next
  case (Undefined u)
  with assms(1) show ?thesis by (simp add: solve_def)
qed

theorem collision_still_returns_true_witness:
  "\<exists>r. solve example_env colliding_request = Returned r \<and>
       res_trajectory (response r) = [Some colliding_trajectory] \<and>
       has_planning_scene example_env \<and>
       \<not> isPathValid example_env colliding_trajectory \<and>
       returned r \<and> res_error_code (response r) = PLANNING_FAILED"
proof -
  have s: "solve example_env colliding_request
             = Returned \<lparr>returned = True,
                 response = \<lparr>res_description = [[]],
                              res_trajectory = [Some colliding_trajectory],
                              res_error_code = PLANNING_FAILED\<rparr>,
                 planner_request = colliding_request,
                 optimizer_calls = [SolveSeed \<lparr>mat_rows = 2,
                     mat_columns = [[1 / 10, 0], [2, 1 / 2], [1, 4 / 5]]\<rparr>]\<rparr>"
    unfolding solve_def colliding_seed
    by (simp add: handle_results_def parametersToJointTrajectory_def
        initial_response_def colliding_trajectory_def Let_def example_env_def
        example_path_valid_def numeral_2_eq_2)
  have t: "res_trajectory (response \<lparr>returned = True,
                 response = \<lparr>res_description = [[]],
                              res_trajectory = [Some colliding_trajectory],
                              res_error_code = PLANNING_FAILED\<rparr>,
                 planner_request = colliding_request,
                 optimizer_calls = [SolveSeed \<lparr>mat_rows = 2,
                     mat_columns = [[1 / 10, 0], [2, 1 / 2], [1, 4 / 5]]\<rparr>]\<rparr>)
             = [Some colliding_trajectory]" by simp
  have p: "has_planning_scene example_env" by (simp add: example_env_def)
  have v: "\<not> isPathValid example_env colliding_trajectory"
    by (simp add: example_env_def example_path_valid_def colliding_trajectory_def)
  from collision_still_returns_true [OF s t p v] s p v show ?thesis by simp
qed

end
